theory Spec2Isabelle
  imports Complex_Main "HOL-Library.Word"
begin

section \<open>JavaScript values\<close>

text \<open>
  A JavaScript string is a sequence of UTF-16 code units; \<open>s.length\<close> counts code
  units. String literals of the source are ASCII and are written \<open>lit ''...''\<close>.
\<close>

type_synonym code_unit = "16 word"
type_synonym jsstring = "code_unit list"

definition lit :: "string \<Rightarrow> jsstring" where
  "lit s = map of_char s"

text \<open>
  \<open>String.prototype.trim\<close> removes WhiteSpace and LineTerminator code points from both
  ends: TAB, LF, VT, FF, CR, SP, NBSP, the Unicode space separators, LS, PS and the BOM.
\<close>

definition isWhiteSpace :: "code_unit \<Rightarrow> bool" where
  "isWhiteSpace c = (c \<in> set [0x9, 0xA, 0xB, 0xC, 0xD, 0x20, 0xA0, 0x1680,
     0x2000, 0x2001, 0x2002, 0x2003, 0x2004, 0x2005, 0x2006, 0x2007, 0x2008, 0x2009, 0x200A,
     0x2028, 0x2029, 0x202F, 0x205F, 0x3000, 0xFEFF])"

definition trim :: "jsstring \<Rightarrow> jsstring" where
  "trim s = rev (dropWhile isWhiteSpace (rev (dropWhile isWhiteSpace s)))"

definition startsWith :: "jsstring \<Rightarrow> jsstring \<Rightarrow> bool" where
  "startsWith s p = (take (length p) s = p)"

fun join :: "jsstring \<Rightarrow> jsstring list \<Rightarrow> jsstring" where
  "join sep [] = []"
| "join sep [x] = x"
| "join sep (x # y # ys) = x @ sep @ join sep (y # ys)"

text \<open>
  An optional string field is \<open>None\<close> when it is \<open>undefined\<close>. Of the strings only the
  empty one is falsy. \<open>truthy v\<close> is the condition \<open>v\<close> of an \<open>if\<close> or of \<open>&&\<close>, and
  \<open>or_else v d\<close> is \<open>v || d\<close>.
\<close>

definition truthy :: "jsstring option \<Rightarrow> bool" where
  "truthy v = (case v of None \<Rightarrow> False | Some s \<Rightarrow> s \<noteq> [])"

definition or_else :: "jsstring option \<Rightarrow> jsstring \<Rightarrow> jsstring" where
  "or_else v d = (case v of None \<Rightarrow> d | Some s \<Rightarrow> if s = [] then d else s)"

definition longer_than :: "jsstring option \<Rightarrow> nat \<Rightarrow> bool" where
  \<comment> \<open>\<open>v && v.length > n\<close>\<close>
  "longer_than v n = (case v of None \<Rightarrow> False | Some s \<Rightarrow> s \<noteq> [] \<and> length s > n)"

text \<open>
  A JavaScript number is an IEEE double: a finite value (every finite double is a
  rational, hence a real), NaN or an infinity. Comparisons with NaN are false.
\<close>

datatype number = Finite real | NaN | PosInfinity | NegInfinity

fun Number_isInteger :: "number \<Rightarrow> bool" where
  "Number_isInteger (Finite r) = (of_int \<lfloor>r\<rfloor> = r)"
| "Number_isInteger _ = False"

fun num_lt :: "number \<Rightarrow> number \<Rightarrow> bool" where
  "num_lt NaN _ = False"
| "num_lt _ NaN = False"
| "num_lt (Finite a) (Finite b) = (a < b)"
| "num_lt NegInfinity b = (b \<noteq> NegInfinity)"
| "num_lt a PosInfinity = (a \<noteq> PosInfinity)"
| "num_lt _ _ = False"

definition num_gt :: "number \<Rightarrow> number \<Rightarrow> bool" where
  "num_gt a b = num_lt b a"

section \<open>types.ts\<close>

definition NO_FEE :: jsstring where "NO_FEE = lit ''NO_FEE''"
definition SPLIT_FEE :: jsstring where "SPLIT_FEE = lit ''SPLIT_FEE''"
definition CUSTOMER_FEE :: jsstring where "CUSTOMER_FEE = lit ''CUSTOMER_FEE''"

text \<open>
  \<open>FeeMode\<close> is a string enum, so at run time a fee mode is a string; \<open>title\<close> is
  declared a string but is tested for absence by the validator, so it is optional here.
\<close>

record ProductInfo =
  title :: "jsstring option"
  amount :: number
  description :: "jsstring option"

record CreateLinkRequest =
  productInfo :: "ProductInfo option"
  feeMode :: "jsstring option"
  successMessage :: "jsstring option"
  redirectUrl :: "jsstring option"

section \<open>validators.ts\<close>

datatype error = Error jsstring

definition and_then :: "error + unit \<Rightarrow> error + unit \<Rightarrow> error + unit" where
  \<comment> \<open>statement sequencing: a throw in the first statement skips the second\<close>
  "and_then r k = (case r of Inl e \<Rightarrow> Inl e | Inr _ \<Rightarrow> k)"

definition validateProductInfo :: "ProductInfo \<Rightarrow> error + unit" where
  "validateProductInfo info =
    (if \<not> truthy (title info)
        \<or> (case title info of None \<Rightarrow> True | Some t \<Rightarrow> length (trim t) = 0)
     then Inl (Error (lit ''Product title is required''))
     else if (case title info of None \<Rightarrow> False | Some t \<Rightarrow> length t > 200)
     then Inl (Error (lit ''Product title must not exceed 200 characters''))
     else if \<not> Number_isInteger (amount info)
     then Inl (Error (lit ''Amount must be a whole number (no decimals)''))
     else if num_lt (amount info) (Finite 500)
     then Inl (Error (lit ''Amount must be at least 500 DZD''))
     else if num_gt (amount info) (Finite 500000)
     then Inl (Error (lit ''Amount must not exceed 500,000 DZD''))
     else if longer_than (description info) 1000
     then Inl (Error (lit ''Product description must not exceed 1000 characters''))
     else Inr ())"

definition validateFeeMode :: "jsstring \<Rightarrow> error + unit" where
  "validateFeeMode mode =
    (let validFeeModes = [NO_FEE, SPLIT_FEE, CUSTOMER_FEE] in
     if mode \<notin> set validFeeModes
     then Inl (Error (lit ''Invalid fee mode. Must be one of: '' @ join (lit '', '') validFeeModes))
     else Inr ())"

text \<open>
  The \<open>URL\<close> constructor belongs to the runtime, not to the repository. The validator
  takes it as a parameter: \<open>URL u\<close> is \<open>None\<close> when \<open>new URL(u)\<close> throws and otherwise
  the \<open>protocol\<close> of the URL it builds (the lower-cased scheme followed by a colon).
\<close>

type_synonym URL_constructor = "jsstring \<Rightarrow> jsstring option"

definition isValidUrl :: "URL_constructor \<Rightarrow> jsstring \<Rightarrow> bool" where
  "isValidUrl URL url =
    (case URL url of
       None \<Rightarrow> False
     | Some _ \<Rightarrow> startsWith url (lit ''http://'') \<or> startsWith url (lit ''https://''))"

definition validateCreateLinkRequest :: "URL_constructor \<Rightarrow> CreateLinkRequest \<Rightarrow> error + unit" where
  "validateCreateLinkRequest URL request =
    (case productInfo request of
       None \<Rightarrow> Inl (Error (lit ''Product info is required''))
     | Some p \<Rightarrow>
         and_then (validateProductInfo p)
        (and_then (case feeMode request of
                     None \<Rightarrow> Inr ()
                   | Some f \<Rightarrow> if f \<noteq> [] then validateFeeMode f else Inr ())
        (if longer_than (successMessage request) 500
         then Inl (Error (lit ''Success message must not exceed 500 characters''))
         else if (case redirectUrl request of
                    None \<Rightarrow> False
                  | Some u \<Rightarrow> u \<noteq> [] \<and> \<not> isValidUrl URL u)
         then Inl (Error (lit ''Redirect URL must be a valid HTTP/HTTPS URL''))
         else Inr ())))"

text \<open>
  For evaluation at concrete inputs: the first stage of the URL parser that the runtime
  implements (the WHATWG parser called without a base URL). Leading and trailing C0
  controls and spaces are stripped, tabs and newlines removed, and the scheme is read: an
  ASCII letter, then letters, digits, \<open>+\<close>, \<open>-\<close>, \<open>.\<close> up to a colon, lower-cased. An
  input without such a scheme makes the constructor throw. This model accepts every input
  that has a scheme; the runtime goes on to parse host, port and path and may still throw
  there (on \<open>http://\<close>, which has no host, or on a host with a space in it), so it
  accepts no input that this model rejects, and where both accept they give the same
  protocol. It is evaluated below only at inputs on which the runtime gives the same
  result; the general statements take the constructor as a parameter.
\<close>

definition isC0ControlOrSpace :: "code_unit \<Rightarrow> bool" where
  "isC0ControlOrSpace c = (c \<le> 0x20)"

definition isAsciiTabOrNewline :: "code_unit \<Rightarrow> bool" where
  "isAsciiTabOrNewline c = (c \<in> set [0x9, 0xA, 0xD])"

definition isAsciiAlpha :: "code_unit \<Rightarrow> bool" where
  "isAsciiAlpha c = ((0x41 \<le> c \<and> c \<le> 0x5A) \<or> (0x61 \<le> c \<and> c \<le> 0x7A))"

definition isAsciiDigit :: "code_unit \<Rightarrow> bool" where
  "isAsciiDigit c = (0x30 \<le> c \<and> c \<le> 0x39)"

definition asciiLower :: "code_unit \<Rightarrow> code_unit" where
  "asciiLower c = (if 0x41 \<le> c \<and> c \<le> 0x5A then c + 0x20 else c)"

fun scheme_state :: "jsstring \<Rightarrow> jsstring \<Rightarrow> jsstring option" where
  "scheme_state buffer [] = None"
| "scheme_state buffer (c # cs) =
    (if isAsciiAlpha c \<or> isAsciiDigit c \<or> c \<in> set [0x2B, 0x2D, 0x2E]
     then scheme_state (buffer @ [asciiLower c]) cs
     else if c = 0x3A then Some (buffer @ [0x3A])
     else None)"

definition URL_scheme_stage :: URL_constructor where
  "URL_scheme_stage input =
    (case filter (\<lambda>c. \<not> isAsciiTabOrNewline c)
            (rev (dropWhile isC0ControlOrSpace (rev (dropWhile isC0ControlOrSpace input)))) of
       [] \<Rightarrow> None
     | c # cs \<Rightarrow> if isAsciiAlpha c then scheme_state [asciiLower c] cs else None)"

section \<open>exceptions.ts\<close>

datatype exception_class =
  OCPayException | ApiException | ValidationException | UnauthorizedException
  | NotFoundException | PaymentExpiredException

record ResponseMeta =
  requestId :: "jsstring option"
  timestamp :: "jsstring option"

record 'd ApiResponse =
  success :: bool
  data :: 'd
  message :: "jsstring option"
  meta :: "ResponseMeta option"

text \<open>
  An exception object: \<open>name\<close> is \<open>this.constructor.name\<close>, the class that was
  instantiated; \<open>error_message\<close> is the \<open>message\<close> of \<open>Error\<close>.
\<close>

record 'd exception_object =
  name :: exception_class
  error_message :: jsstring
  statusCode :: "nat option"
  exn_requestId :: "jsstring option"
  errorData :: "'d ApiResponse option"

definition new_OCPayException ::
  "exception_class \<Rightarrow> jsstring \<Rightarrow> nat option \<Rightarrow> jsstring option \<Rightarrow> 'd ApiResponse option
    \<Rightarrow> 'd exception_object" where
  "new_OCPayException cls msg sc rid ed =
    \<lparr>name = cls, error_message = msg, statusCode = sc, exn_requestId = rid, errorData = ed\<rparr>"

definition new_ApiException ::
  "jsstring \<Rightarrow> nat option \<Rightarrow> jsstring option \<Rightarrow> 'd ApiResponse option \<Rightarrow> 'd exception_object" where
  "new_ApiException msg sc rid ed = new_OCPayException ApiException msg sc rid ed"

definition default_to :: "nat option \<Rightarrow> nat \<Rightarrow> nat option" where
  \<comment> \<open>a parameter default \<open>statusCode: number = n\<close> replaces \<open>undefined\<close> only\<close>
  "default_to sc n = (case sc of None \<Rightarrow> Some n | Some s \<Rightarrow> Some s)"

definition new_ValidationException ::
  "jsstring \<Rightarrow> nat option \<Rightarrow> jsstring option \<Rightarrow> 'd ApiResponse option \<Rightarrow> 'd exception_object" where
  "new_ValidationException msg sc rid ed =
    new_OCPayException ValidationException msg (default_to sc 400) rid ed"

definition new_UnauthorizedException ::
  "jsstring \<Rightarrow> nat option \<Rightarrow> jsstring option \<Rightarrow> 'd ApiResponse option \<Rightarrow> 'd exception_object" where
  "new_UnauthorizedException msg sc rid ed =
    new_OCPayException UnauthorizedException msg (default_to sc 403) rid ed"

definition new_NotFoundException ::
  "jsstring \<Rightarrow> nat option \<Rightarrow> jsstring option \<Rightarrow> 'd ApiResponse option \<Rightarrow> 'd exception_object" where
  "new_NotFoundException msg sc rid ed =
    new_OCPayException NotFoundException msg (default_to sc 404) rid ed"

definition new_PaymentExpiredException ::
  "jsstring \<Rightarrow> nat option \<Rightarrow> jsstring option \<Rightarrow> 'd ApiResponse option \<Rightarrow> 'd exception_object" where
  "new_PaymentExpiredException msg sc rid ed =
    new_OCPayException PaymentExpiredException msg (default_to sc 410) rid ed"

section \<open>client.ts\<close>

text \<open>
  What the HTTP library hands to the client: a fulfilled response (status and decoded
  body), or an error that carries the library's own message and, when the server did
  answer, the response with its status and body.
\<close>

record 'd AxiosResponse =
  status :: nat
  response_data :: "'d ApiResponse option"

record 'd AxiosError =
  axios_message :: jsstring
  response :: "'d AxiosResponse option"

datatype 'd axios_outcome = Fulfilled nat "'d ApiResponse" | Rejected "'d AxiosError"

datatype 'b request = GET jsstring | POST jsstring 'b

definition handleResponse :: "'d ApiResponse \<Rightarrow> 'd exception_object + 'd ApiResponse" where
  "handleResponse d =
    (if success d = False
     then let msg = or_else (message d) (lit ''API request failed'');
              rid = Option.bind (meta d) requestId
          in Inl (new_ApiException msg (Some 0) rid (Some d))
     else Inr d)"

definition handleException :: "'d AxiosError \<Rightarrow> 'd exception_object" where
  "handleException err =
    (let resp = response err;
         sc = (case resp of None \<Rightarrow> 0 | Some r \<Rightarrow> if status r = 0 then 0 else status r);
         d = Option.bind resp response_data;
         rid = Option.bind (Option.bind d meta) requestId;
         msg = or_else (Option.bind d message) (axios_message err)
     in if sc = 400 then new_ValidationException msg (Some sc) rid d
        else if sc = 403 then new_UnauthorizedException msg (Some sc) rid d
        else if sc = 404 then new_NotFoundException msg (Some sc) rid d
        else if sc = 410 then new_PaymentExpiredException msg (Some sc) rid d
        else new_ApiException msg (Some sc) rid d)"

text \<open>
  The network is a function from requests to outcomes, and the list of requests handed
  to it so far is threaded through every call. The response interceptor turns a rejected
  call into \<open>handleException\<close> of its error; \<open>post\<close> and \<open>get\<close> pass the body of a
  fulfilled one to \<open>handleResponse\<close>.
\<close>

type_synonym ('b, 'd) network = "'b request \<Rightarrow> 'd axios_outcome"

definition httpClient ::
  "('b, 'd) network \<Rightarrow> 'b request list \<Rightarrow> 'b request
    \<Rightarrow> ('d exception_object + 'd ApiResponse) \<times> 'b request list" where
  "httpClient net sent req =
    (case net req of
       Rejected err \<Rightarrow> (Inl (handleException err), sent @ [req])
     | Fulfilled st body \<Rightarrow> (handleResponse body, sent @ [req]))"

definition Client_post ::
  "('b, 'd) network \<Rightarrow> 'b request list \<Rightarrow> jsstring \<Rightarrow> 'b
    \<Rightarrow> ('d exception_object + 'd ApiResponse) \<times> 'b request list" where
  "Client_post net sent endpoint body = httpClient net sent (POST endpoint body)"

definition Client_get ::
  "('b, 'd) network \<Rightarrow> 'b request list \<Rightarrow> jsstring
    \<Rightarrow> ('d exception_object + 'd ApiResponse) \<times> 'b request list" where
  "Client_get net sent endpoint = httpClient net sent (GET endpoint)"

section \<open>ocpay-service.ts\<close>

text \<open>
  Both methods of the service are \<open>async\<close>. \<open>createLink\<close> and \<open>checkPayment\<close> below run
  the body of the method: the result is what the body throws (a bare \<open>Error\<close> of the
  local checks or an exception object of the client) or returns (the \<open>data\<close> of the
  response), together with the requests handed to the network.
\<close>

datatype 'd thrown = Local error | Api "'d exception_object"

definition ENDPOINT_CREATE_LINK :: jsstring where
  "ENDPOINT_CREATE_LINK = lit ''/v3/ocpay/createLink''"

definition ENDPOINT_CHECK_PAYMENT :: jsstring where
  "ENDPOINT_CHECK_PAYMENT = lit ''/v3/ocpay/checkPayment''"

definition createLink ::
  "URL_constructor \<Rightarrow> (CreateLinkRequest, 'd) network \<Rightarrow> CreateLinkRequest request list
    \<Rightarrow> CreateLinkRequest \<Rightarrow> ('d thrown + 'd) \<times> CreateLinkRequest request list" where
  "createLink URL net sent request =
    (case validateCreateLinkRequest URL request of
       Inl e \<Rightarrow> (Inl (Local e), sent)
     | Inr _ \<Rightarrow>
         let requestData = request\<lparr>feeMode := Some (or_else (feeMode request) NO_FEE)\<rparr>
         in (case Client_post net sent ENDPOINT_CREATE_LINK requestData of
               (Inl ex, sent') \<Rightarrow> (Inl (Api ex), sent')
             | (Inr resp, sent') \<Rightarrow> (Inr (data resp), sent')))"

definition checkPayment ::
  "('b, 'd) network \<Rightarrow> 'b request list \<Rightarrow> jsstring
    \<Rightarrow> ('d thrown + 'd) \<times> 'b request list" where
  "checkPayment net sent paymentRef =
    (if paymentRef = [] \<or> length (trim paymentRef) = 0
     then (Inl (Local (Error (lit ''Payment reference is required''))), sent)
     else let endpoint = ENDPOINT_CHECK_PAYMENT @ lit ''/'' @ paymentRef
          in (case Client_get net sent endpoint of
                (Inl ex, sent') \<Rightarrow> (Inl (Api ex), sent')
              | (Inr resp, sent') \<Rightarrow> (Inr (data resp), sent')))"

text \<open>
  A call of an \<open>async\<close> method never throws: it returns a promise, and what the body
  throws or returns settles that promise as rejected or resolved. \<open>async_method\<close> turns
  the run of a body into the completion of the call.
\<close>

datatype ('e, 'a) promise = Rejects 'e | Resolves 'a

datatype ('e, 'a) completion = Throw 'e | Return 'a

definition async_method ::
  "('e + 'a) \<times> 's \<Rightarrow> ('e, ('e, 'a) promise) completion \<times> 's" where
  "async_method run =
    (Return (case fst run of Inl e \<Rightarrow> Rejects e | Inr v \<Rightarrow> Resolves v), snd run)"

section \<open>Notions of the specification\<close>

text \<open>
  The specification measures a title ``after trimming whitespace-only to empty'': a title
  that consists of white space only counts with the length of its trimmed form, every
  other title with its own length.
\<close>

definition effective_title_length :: "jsstring \<Rightarrow> nat" where
  "effective_title_length t = (if list_all isWhiteSpace t then length (trim t) else length t)"

section \<open>Sample inputs\<close>

text \<open>
  Values used where a statement is evaluated at a concrete input: the request of the
  documentation's example (without fee mode and redirect URL), the error of a call
  answered with status 410 and the body of the specification's scenario, two bodies that
  report a logical failure, and two errors of calls that got no answer.
\<close>

definition sample_request :: CreateLinkRequest where
  "sample_request =
    \<lparr>productInfo = Some \<lparr>title = Some (lit ''Premium Subscription''), amount = Finite 5000,
       description = Some (lit ''Monthly access to premium features'')\<rparr>,
     feeMode = None, successMessage = Some (lit ''Thank you for your purchase!''),
     redirectUrl = None\<rparr>"

definition expired_body :: "unit ApiResponse" where
  "expired_body =
    \<lparr>success = False, data = (), message = Some (lit ''Link expired''),
     meta = Some \<lparr>requestId = Some (lit ''req-1''), timestamp = None\<rparr>\<rparr>"

definition expired_error :: "unit AxiosError" where
  "expired_error =
    \<lparr>axios_message = lit ''Request failed with status code 410'',
     response = Some \<lparr>status = 410, response_data = Some expired_body\<rparr>\<rparr>"

definition balance_body :: "unit ApiResponse" where
  "balance_body = \<lparr>success = False, data = (), message = Some (lit ''insufficient balance''),
     meta = None\<rparr>"

definition empty_message_body :: "unit ApiResponse" where
  "empty_message_body = \<lparr>success = False, data = (), message = Some [], meta = None\<rparr>"

definition network_error :: "unit AxiosError" where
  "network_error = \<lparr>axios_message = lit ''Network Error'', response = None\<rparr>"

definition timeout_error :: "unit AxiosError" where
  "timeout_error = \<lparr>axios_message = lit ''timeout of 30000ms exceeded'', response = None\<rparr>"

text \<open>
  The fee-mode statement of \<open>validateCreateLinkRequest\<close>, named so that facts about it
  can be stated: \<open>validateFeeMode\<close> runs only on a truthy fee mode.
\<close>

definition fee_mode_check :: "jsstring option \<Rightarrow> error + unit" where
  "fee_mode_check fm = (case fm of None \<Rightarrow> Inr () | Some f \<Rightarrow> if f \<noteq> [] then validateFeeMode f else Inr ())"

section \<open>Auxiliary facts\<close>

subsection \<open>Strings and numbers\<close>

lemma all_dropWhile: "(\<forall>x\<in>set (dropWhile P s). P x) = (\<forall>x\<in>set s. P x)"
  by (induction s) auto

lemma trim_eq_Nil: "(trim s = []) = list_all isWhiteSpace s"
  by (simp add: trim_def dropWhile_eq_Nil_conv list_all_iff all_dropWhile)

lemma Number_isInteger_iff: "Number_isInteger n = (\<exists>i::int. n = Finite (of_int i))"
  by (cases n) auto

lemma or_else_simps:
  "or_else None d = d" "or_else (Some []) d = d" "m \<noteq> [] \<Longrightarrow> or_else (Some m) d = m"
  by (simp_all add: or_else_def)

lemma fee_message:
  "lit ''Invalid fee mode. Must be one of: '' @ join (lit '', '') [NO_FEE, SPLIT_FEE, CUSTOMER_FEE]
    = lit ''Invalid fee mode. Must be one of: NO_FEE, SPLIT_FEE, CUSTOMER_FEE''"
  by (simp add: lit_def NO_FEE_def SPLIT_FEE_def CUSTOMER_FEE_def)

lemma sample_title: "trim (lit ''Order'') \<noteq> []" "length (lit ''Order'') \<le> 200"
  by (simp_all add: trim_def lit_def isWhiteSpace_def)

subsection \<open>The validator\<close>

lemma and_then_Inl: "and_then (Inl e) k = Inl e"
  by (simp add: and_then_def)

lemma and_then_Inr: "and_then (Inr u) k = k"
  by (simp add: and_then_def)

lemma validateProductInfo_title_ok:
  assumes "title p = Some t" "trim t \<noteq> []" "length t \<le> 200"
  shows "validateProductInfo p =
    (if \<not> Number_isInteger (amount p)
     then Inl (Error (lit ''Amount must be a whole number (no decimals)''))
     else if num_lt (amount p) (Finite 500)
     then Inl (Error (lit ''Amount must be at least 500 DZD''))
     else if num_gt (amount p) (Finite 500000)
     then Inl (Error (lit ''Amount must not exceed 500,000 DZD''))
     else if longer_than (description p) 1000
     then Inl (Error (lit ''Product description must not exceed 1000 characters''))
     else Inr ())"
proof -
  from assms(2) have "t \<noteq> []" by (auto simp: trim_def)
  with assms show ?thesis
    unfolding validateProductInfo_def by (simp add: truthy_def)
qed

lemma validateProductInfo_blank:
  "title p = None \<or> (\<exists>t. title p = Some t \<and> list_all isWhiteSpace t) \<Longrightarrow>
   validateProductInfo p = Inl (Error (lit ''Product title is required''))"
  unfolding validateProductInfo_def by (auto simp: truthy_def trim_eq_Nil)

lemma validateProductInfo_long:
  "title p = Some t \<Longrightarrow> \<not> list_all isWhiteSpace t \<Longrightarrow> 200 < length t \<Longrightarrow>
   validateProductInfo p = Inl (Error (lit ''Product title must not exceed 200 characters''))"
  unfolding validateProductInfo_def by (auto simp: truthy_def trim_eq_Nil)

lemma validateProductInfo_title_passed:
  assumes "title p = Some t" "\<not> list_all isWhiteSpace t" "length t \<le> 200"
  shows "validateProductInfo p \<noteq> Inl (Error (lit ''Product title is required''))"
    and "validateProductInfo p \<noteq> Inl (Error (lit ''Product title must not exceed 200 characters''))"
proof -
  from assms(2) have "trim t \<noteq> []" by (simp add: trim_eq_Nil)
  note v = validateProductInfo_title_ok [OF assms(1) this assms(3)]
  show "validateProductInfo p \<noteq> Inl (Error (lit ''Product title is required''))"
    unfolding v by (simp add: lit_def)
  show "validateProductInfo p \<noteq> Inl (Error (lit ''Product title must not exceed 200 characters''))"
    unfolding v by (simp add: lit_def)
qed

lemma title_messages_distinct:
  "lit ''Product title is required'' \<noteq> lit ''Product title must not exceed 200 characters''"
  by (simp add: lit_def)

lemma effective_title_length_range:
  "(1 \<le> effective_title_length t \<and> effective_title_length t \<le> 200)
    = (\<not> list_all isWhiteSpace t \<and> length t \<le> 200)"
proof (cases "list_all isWhiteSpace t")
  case True
  then have "trim t = []" by (simp add: trim_eq_Nil)
  with True show ?thesis by (simp add: effective_title_length_def)
next
  case False
  then have "t \<noteq> []" by auto
  with False show ?thesis by (simp add: effective_title_length_def Suc_le_eq)
qed

lemma validateProductInfo_not_redirect:
  "validateProductInfo p \<noteq> Inl (Error (lit ''Redirect URL must be a valid HTTP/HTTPS URL''))"
  by (simp add: validateProductInfo_def lit_def)

lemma validateProductInfo_not_fee:
  "validateProductInfo p
    \<noteq> Inl (Error (lit ''Invalid fee mode. Must be one of: NO_FEE, SPLIT_FEE, CUSTOMER_FEE''))"
  by (simp add: validateProductInfo_def lit_def)

lemma validateFeeMode_eq:
  "validateFeeMode f =
    (if f = NO_FEE \<or> f = SPLIT_FEE \<or> f = CUSTOMER_FEE then Inr ()
     else Inl (Error (lit ''Invalid fee mode. Must be one of: NO_FEE, SPLIT_FEE, CUSTOMER_FEE'')))"
  unfolding validateFeeMode_def Let_def fee_message by auto

lemma fee_mode_check_eq:
  "fee_mode_check fm =
    (case fm of
       None \<Rightarrow> Inr ()
     | Some f \<Rightarrow>
         if f = [] \<or> f = NO_FEE \<or> f = SPLIT_FEE \<or> f = CUSTOMER_FEE then Inr ()
         else Inl (Error (lit ''Invalid fee mode. Must be one of: NO_FEE, SPLIT_FEE, CUSTOMER_FEE'')))"
  by (simp add: fee_mode_check_def validateFeeMode_eq split: option.split)

lemma validateCreateLinkRequest_unfold:
  "validateCreateLinkRequest URL r =
    (case productInfo r of
       None \<Rightarrow> Inl (Error (lit ''Product info is required''))
     | Some p \<Rightarrow>
        (case validateProductInfo p of
           Inl e \<Rightarrow> Inl e
         | Inr _ \<Rightarrow>
            (case fee_mode_check (feeMode r) of
               Inl e \<Rightarrow> Inl e
             | Inr _ \<Rightarrow>
                 if longer_than (successMessage r) 500
                 then Inl (Error (lit ''Success message must not exceed 500 characters''))
                 else if (case redirectUrl r of None \<Rightarrow> False
                          | Some u \<Rightarrow> u \<noteq> [] \<and> \<not> isValidUrl URL u)
                 then Inl (Error (lit ''Redirect URL must be a valid HTTP/HTTPS URL''))
                 else Inr ())))"
  by (simp add: validateCreateLinkRequest_def and_then_def fee_mode_check_def
      split: option.split sum.split)

lemma validateCreateLinkRequest_product:
  "productInfo r = Some p \<Longrightarrow> validateProductInfo p = Inr () \<Longrightarrow>
   validateCreateLinkRequest URL r =
    (case fee_mode_check (feeMode r) of
       Inl e \<Rightarrow> Inl e
     | Inr _ \<Rightarrow>
         if longer_than (successMessage r) 500
         then Inl (Error (lit ''Success message must not exceed 500 characters''))
         else if (case redirectUrl r of None \<Rightarrow> False | Some u \<Rightarrow> u \<noteq> [] \<and> \<not> isValidUrl URL u)
         then Inl (Error (lit ''Redirect URL must be a valid HTTP/HTTPS URL''))
         else Inr ())"
  by (simp add: validateCreateLinkRequest_def and_then_def fee_mode_check_def)

lemma validateCreateLinkRequest_Inr:
  "(validateCreateLinkRequest URL r = Inr ()) =
    (\<exists>p. productInfo r = Some p \<and> validateProductInfo p = Inr ()
       \<and> fee_mode_check (feeMode r) = Inr ()
       \<and> \<not> longer_than (successMessage r) 500
       \<and> (case redirectUrl r of None \<Rightarrow> True | Some u \<Rightarrow> u = [] \<or> isValidUrl URL u))"
  by (auto simp: validateCreateLinkRequest_def and_then_def fee_mode_check_def
      split: option.splits sum.splits)

lemma validateCreateLinkRequest_cong:
  "productInfo a = productInfo b \<Longrightarrow> fee_mode_check (feeMode a) = fee_mode_check (feeMode b) \<Longrightarrow>
   successMessage a = successMessage b \<Longrightarrow> redirectUrl a = redirectUrl b \<Longrightarrow>
   validateCreateLinkRequest URL a = validateCreateLinkRequest URL b"
  by (simp add: validateCreateLinkRequest_unfold split: option.split sum.split)

lemma redirect_message_distinct:
  "lit ''Product info is required'' \<noteq> lit ''Redirect URL must be a valid HTTP/HTTPS URL''"
  "lit ''Invalid fee mode. Must be one of: NO_FEE, SPLIT_FEE, CUSTOMER_FEE''
    \<noteq> lit ''Redirect URL must be a valid HTTP/HTTPS URL''"
  "lit ''Success message must not exceed 500 characters''
    \<noteq> lit ''Redirect URL must be a valid HTTP/HTTPS URL''"
  by (simp_all add: lit_def)

lemma fee_message_distinct:
  "lit ''Product info is required''
    \<noteq> lit ''Invalid fee mode. Must be one of: NO_FEE, SPLIT_FEE, CUSTOMER_FEE''"
  "lit ''Success message must not exceed 500 characters''
    \<noteq> lit ''Invalid fee mode. Must be one of: NO_FEE, SPLIT_FEE, CUSTOMER_FEE''"
  "lit ''Redirect URL must be a valid HTTP/HTTPS URL''
    \<noteq> lit ''Invalid fee mode. Must be one of: NO_FEE, SPLIT_FEE, CUSTOMER_FEE''"
  by (simp_all add: lit_def)

lemma sample_request_valid: "validateCreateLinkRequest URL sample_request = Inr ()"
  by (simp add: validateCreateLinkRequest_def sample_request_def validateProductInfo_def
      truthy_def trim_def lit_def isWhiteSpace_def num_gt_def longer_than_def and_then_def)

lemma strip_end_Cons:
  "\<not> P x \<Longrightarrow> rev (dropWhile P (rev (x # xs))) = x # rev (dropWhile P (rev xs))"
  by (simp add: dropWhile_append)

lemma URL_scheme_stage_http:
  assumes "startsWith v (lit ''http://'')"
  shows "URL_scheme_stage v = Some (lit ''http:'')"
proof -
  from assms obtain w where v: "v = lit ''http://'' @ w"
    unfolding startsWith_def by (metis append_take_drop_id)
  have c: "\<not> isC0ControlOrSpace 0x68" "\<not> isC0ControlOrSpace 0x74" "\<not> isC0ControlOrSpace 0x70"
    "\<not> isC0ControlOrSpace 0x3A" "\<not> isC0ControlOrSpace 0x2F"
    by (simp_all add: isC0ControlOrSpace_def)
  show ?thesis
    unfolding v URL_scheme_stage_def
    by (simp add: lit_def strip_end_Cons c isAsciiTabOrNewline_def isAsciiAlpha_def
        isAsciiDigit_def asciiLower_def del: rev.simps)
qed

lemma URL_scheme_stage_https:
  assumes "startsWith v (lit ''https://'')"
  shows "URL_scheme_stage v = Some (lit ''https:'')"
proof -
  from assms obtain w where v: "v = lit ''https://'' @ w"
    unfolding startsWith_def by (metis append_take_drop_id)
  have c: "\<not> isC0ControlOrSpace 0x68" "\<not> isC0ControlOrSpace 0x74" "\<not> isC0ControlOrSpace 0x70"
    "\<not> isC0ControlOrSpace 0x73" "\<not> isC0ControlOrSpace 0x3A" "\<not> isC0ControlOrSpace 0x2F"
    by (simp_all add: isC0ControlOrSpace_def)
  show ?thesis
    unfolding v URL_scheme_stage_def
    by (simp add: lit_def strip_end_Cons c isAsciiTabOrNewline_def isAsciiAlpha_def
        isAsciiDigit_def asciiLower_def del: rev.simps)
qed

subsection \<open>The classifier and the client\<close>

lemmas new_exception_defs =
  new_OCPayException_def new_ApiException_def new_ValidationException_def
  new_UnauthorizedException_def new_NotFoundException_def new_PaymentExpiredException_def
  default_to_def

lemma handleException_name:
  "name (handleException e) =
    (case response e of
       None \<Rightarrow> ApiException
     | Some r \<Rightarrow>
         if status r = 400 then ValidationException
         else if status r = 403 then UnauthorizedException
         else if status r = 404 then NotFoundException
         else if status r = 410 then PaymentExpiredException
         else ApiException)"
  by (simp add: handleException_def Let_def new_exception_defs split: option.split)

lemma handleException_statusCode:
  "statusCode (handleException e) = Some (case response e of None \<Rightarrow> 0 | Some r \<Rightarrow> status r)"
  by (simp add: handleException_def Let_def new_exception_defs split: option.split)

lemma handleException_requestId:
  "exn_requestId (handleException e)
    = Option.bind (Option.bind (Option.bind (response e) response_data) meta) requestId"
  by (simp add: handleException_def Let_def new_exception_defs)

lemma handleException_errorData:
  "errorData (handleException e) = Option.bind (response e) response_data"
  by (simp add: handleException_def Let_def new_exception_defs)

lemma handleException_message:
  "error_message (handleException e)
    = or_else (Option.bind (Option.bind (response e) response_data) message) (axios_message e)"
  by (simp add: handleException_def Let_def new_exception_defs)

lemma handleResponse_failure:
  "success b = False \<Longrightarrow>
   handleResponse b = Inl \<lparr>name = ApiException,
     error_message = or_else (message b) (lit ''API request failed''),
     statusCode = Some 0, exn_requestId = Option.bind (meta b) requestId, errorData = Some b\<rparr>"
  by (simp add: handleResponse_def Let_def new_exception_defs)

lemma httpClient_Fulfilled:
  "net req = Fulfilled st b \<Longrightarrow> httpClient net sent req = (handleResponse b, sent @ [req])"
  by (simp add: httpClient_def)

lemma httpClient_Rejected:
  "net req = Rejected err \<Longrightarrow> httpClient net sent req = (Inl (handleException err), sent @ [req])"
  by (simp add: httpClient_def)

lemma snd_httpClient: "snd (httpClient net sent req) = sent @ [req]"
  by (simp add: httpClient_def split: axios_outcome.split)

subsection \<open>The service\<close>

lemma createLink_invalid:
  "validateCreateLinkRequest URL r = Inl e \<Longrightarrow> createLink URL net sent r = (Inl (Local e), sent)"
  by (simp add: createLink_def)

lemma createLink_valid:
  "validateCreateLinkRequest URL r = Inr () \<Longrightarrow>
   createLink URL net sent r =
    (case httpClient net sent
            (POST ENDPOINT_CREATE_LINK (r\<lparr>feeMode := Some (or_else (feeMode r) NO_FEE)\<rparr>)) of
       (Inl ex, sent') \<Rightarrow> (Inl (Api ex), sent')
     | (Inr resp, sent') \<Rightarrow> (Inr (data resp), sent'))"
  by (simp add: createLink_def Let_def Client_post_def)

lemma createLink_valid_sent:
  "validateCreateLinkRequest URL r = Inr () \<Longrightarrow>
   snd (createLink URL net sent r)
    = sent @ [POST ENDPOINT_CREATE_LINK (r\<lparr>feeMode := Some (or_else (feeMode r) NO_FEE)\<rparr>)]"
  using snd_httpClient [of net sent
      "POST ENDPOINT_CREATE_LINK (r\<lparr>feeMode := Some (or_else (feeMode r) NO_FEE)\<rparr>)"]
  by (auto simp: createLink_valid split: prod.split sum.split)

lemma checkPayment_not_blank:
  "\<not> list_all isWhiteSpace paymentRef \<Longrightarrow>
   checkPayment net sent paymentRef =
    (case Client_get net sent (ENDPOINT_CHECK_PAYMENT @ lit ''/'' @ paymentRef) of
       (Inl ex, sent') \<Rightarrow> (Inl (Api ex), sent')
     | (Inr resp, sent') \<Rightarrow> (Inr (data resp), sent'))"
proof -
  assume a: "\<not> list_all isWhiteSpace paymentRef"
  then have "paymentRef \<noteq> []" by auto
  moreover from a have "trim paymentRef \<noteq> []"
    by (simp add: trim_def dropWhile_eq_Nil_conv list_all_iff all_dropWhile)
  ultimately show ?thesis by (simp add: checkPayment_def Let_def)
qed

section \<open>Amount and title rules of the validator\<close>

text \<open>
  Claim C1. Once the title checks have passed, \<open>validateProductInfo\<close> raises none of the
  three amount errors exactly when the amount is an integer between 500 and 500000
  inclusive, and then succeeds unless the description is too long. An amount that is not
  an integer (a fraction, NaN, an infinity) raises the whole-number message, an integer
  below 500 the ``at least 500'' message, an integer above 500000 the ``exceed 500,000''
  message, and \<open>validateCreateLinkRequest\<close> raises whatever \<open>validateProductInfo\<close>
  raises.
\<close>

theorem C1_amount_range:
  assumes "title p = Some t" and "trim t \<noteq> []" and "length t \<le> 200"
  shows "(\<not> Number_isInteger (amount p) \<longrightarrow>
            validateProductInfo p = Inl (Error (lit ''Amount must be a whole number (no decimals)'')))
       \<and> (\<forall>i::int. amount p = Finite (of_int i) \<and> i < 500 \<longrightarrow>
            validateProductInfo p = Inl (Error (lit ''Amount must be at least 500 DZD'')))
       \<and> (\<forall>i::int. amount p = Finite (of_int i) \<and> 500000 < i \<longrightarrow>
            validateProductInfo p = Inl (Error (lit ''Amount must not exceed 500,000 DZD'')))
       \<and> ((validateProductInfo p \<noteq> Inl (Error (lit ''Amount must be a whole number (no decimals)''))
            \<and> validateProductInfo p \<noteq> Inl (Error (lit ''Amount must be at least 500 DZD''))
            \<and> validateProductInfo p \<noteq> Inl (Error (lit ''Amount must not exceed 500,000 DZD'')))
           = (\<exists>i::int. amount p = Finite (of_int i) \<and> 500 \<le> i \<and> i \<le> 500000))
       \<and> (\<not> longer_than (description p) 1000 \<longrightarrow>
            (validateProductInfo p = Inr ())
             = (\<exists>i::int. amount p = Finite (of_int i) \<and> 500 \<le> i \<and> i \<le> 500000))
       \<and> (\<forall>URL r e. productInfo r = Some p \<and> validateProductInfo p = Inl e \<longrightarrow>
            validateCreateLinkRequest URL r = Inl e)"
proof -
  note v = validateProductInfo_title_ok [OF assms]
  let ?R = "\<exists>i::int. amount p = Finite (of_int i) \<and> 500 \<le> i \<and> i \<le> 500000"
  have R: "?R = (Number_isInteger (amount p) \<and> \<not> num_lt (amount p) (Finite 500)
                  \<and> \<not> num_gt (amount p) (Finite 500000))"
    by (auto simp: Number_isInteger_iff num_gt_def)
  have c1: "\<not> Number_isInteger (amount p) \<longrightarrow>
      validateProductInfo p = Inl (Error (lit ''Amount must be a whole number (no decimals)''))"
    by (simp add: v)
  have c2: "\<forall>i::int. amount p = Finite (of_int i) \<and> i < 500 \<longrightarrow>
      validateProductInfo p = Inl (Error (lit ''Amount must be at least 500 DZD''))"
    by (auto simp: v)
  have c3: "\<forall>i::int. amount p = Finite (of_int i) \<and> 500000 < i \<longrightarrow>
      validateProductInfo p = Inl (Error (lit ''Amount must not exceed 500,000 DZD''))"
    by (auto simp: v num_gt_def)
  have c4: "(validateProductInfo p \<noteq> Inl (Error (lit ''Amount must be a whole number (no decimals)''))
            \<and> validateProductInfo p \<noteq> Inl (Error (lit ''Amount must be at least 500 DZD''))
            \<and> validateProductInfo p \<noteq> Inl (Error (lit ''Amount must not exceed 500,000 DZD'')))
           = ?R"
    unfolding R v by (simp add: lit_def)
  have c5: "\<not> longer_than (description p) 1000 \<longrightarrow> (validateProductInfo p = Inr ()) = ?R"
    unfolding R v by simp
  have c6: "\<forall>URL r e. productInfo r = Some p \<and> validateProductInfo p = Inl e \<longrightarrow>
            validateCreateLinkRequest URL r = Inl e"
    by (simp add: validateCreateLinkRequest_def and_then_Inl)
  from c1 c2 c3 c4 c5 c6 show ?thesis by blast
qed

theorem C1_amount_range_witness:
  "validateProductInfo \<lparr>title = Some (lit ''Order''), amount = Finite 499, description = None\<rparr>
     = Inl (Error (lit ''Amount must be at least 500 DZD''))
   \<and> validateProductInfo \<lparr>title = Some (lit ''Order''), amount = Finite 500000, description = None\<rparr>
     = Inr ()
   \<and> validateProductInfo \<lparr>title = Some (lit ''Order''), amount = Finite 500001, description = None\<rparr>
     = Inl (Error (lit ''Amount must not exceed 500,000 DZD''))
   \<and> validateProductInfo \<lparr>title = Some (lit ''Order''), amount = Finite 499.5, description = None\<rparr>
     = Inl (Error (lit ''Amount must be a whole number (no decimals)''))"
proof -
  let ?p = "\<lambda>a. \<lparr>title = Some (lit ''Order''), amount = a, description = None\<rparr>"
  have t: "title (?p a) = Some (lit ''Order'')" for a by simp
  note r = C1_amount_range [OF t sample_title]
  note whole = r [THEN conjunct1, rule_format]
  note least = r [THEN conjunct2, THEN conjunct1, rule_format]
  note most = r [THEN conjunct2, THEN conjunct2, THEN conjunct1, rule_format]
  note pass = r [THEN conjunct2, THEN conjunct2, THEN conjunct2, THEN conjunct2, THEN conjunct1,
    rule_format]
  have a: "validateProductInfo (?p (Finite 499)) = Inl (Error (lit ''Amount must be at least 500 DZD''))"
    by (rule least [of _ 499]) simp
  have "(validateProductInfo (?p (Finite 500000)) = Inr ())
      = (\<exists>i::int. amount (?p (Finite 500000)) = Finite (of_int i) \<and> 500 \<le> i \<and> i \<le> 500000)"
    by (rule pass) (simp add: longer_than_def)
  moreover have "\<exists>i::int. amount (?p (Finite 500000)) = Finite (of_int i) \<and> 500 \<le> i \<and> i \<le> 500000"
    by (rule exI [of _ 500000]) simp
  ultimately have b: "validateProductInfo (?p (Finite 500000)) = Inr ()" by blast
  have c: "validateProductInfo (?p (Finite 500001)) = Inl (Error (lit ''Amount must not exceed 500,000 DZD''))"
    by (rule most [of _ 500001]) simp
  have d: "validateProductInfo (?p (Finite 499.5))
      = Inl (Error (lit ''Amount must be a whole number (no decimals)''))"
    by (rule whole) simp
  from a b c d show ?thesis by blast
qed

text \<open>
  Claim C5. \<open>validateProductInfo\<close> raises neither title error exactly when the title is
  present and its length, taken after a whitespace-only title is trimmed to empty, lies
  between 1 and 200; with the other fields valid this is exactly when it succeeds. A
  missing or whitespace-only title raises the ``required'' error; a title that is not
  blank and is longer than 200 code units raises the different over-200-characters error
  (checks run in order, so a blank title of any length gets the ``required'' error).
\<close>

theorem C5_title_length:
  "((validateProductInfo p \<noteq> Inl (Error (lit ''Product title is required''))
      \<and> validateProductInfo p \<noteq> Inl (Error (lit ''Product title must not exceed 200 characters'')))
     = (\<exists>t. title p = Some t \<and> 1 \<le> effective_title_length t \<and> effective_title_length t \<le> 200))
   \<and> (title p = None \<longrightarrow>
        validateProductInfo p = Inl (Error (lit ''Product title is required'')))
   \<and> (\<forall>t. title p = Some t \<and> list_all isWhiteSpace t \<longrightarrow>
        validateProductInfo p = Inl (Error (lit ''Product title is required'')))
   \<and> (\<forall>t. title p = Some t \<and> \<not> list_all isWhiteSpace t \<and> 200 < length t \<longrightarrow>
        validateProductInfo p = Inl (Error (lit ''Product title must not exceed 200 characters'')))
   \<and> (Number_isInteger (amount p) \<and> \<not> num_lt (amount p) (Finite 500)
        \<and> \<not> num_gt (amount p) (Finite 500000) \<and> \<not> longer_than (description p) 1000 \<longrightarrow>
        (validateProductInfo p = Inr ())
         = (\<exists>t. title p = Some t \<and> 1 \<le> effective_title_length t \<and> effective_title_length t \<le> 200))
   \<and> lit ''Product title is required'' \<noteq> lit ''Product title must not exceed 200 characters''"
proof -
  let ?ok = "\<exists>t. title p = Some t \<and> 1 \<le> effective_title_length t \<and> effective_title_length t \<le> 200"
  have ok: "?ok = (\<exists>t. title p = Some t \<and> \<not> list_all isWhiteSpace t \<and> length t \<le> 200)"
    by (simp only: effective_title_length_range)
  have c1: "(validateProductInfo p \<noteq> Inl (Error (lit ''Product title is required''))
      \<and> validateProductInfo p \<noteq> Inl (Error (lit ''Product title must not exceed 200 characters'')))
     = ?ok"
  proof (cases "title p")
    case None
    then show ?thesis using validateProductInfo_blank [of p] by simp
  next
    case (Some t)
    show ?thesis
    proof (cases "list_all isWhiteSpace t")
      case True
      with Some show ?thesis using validateProductInfo_blank [of p] unfolding ok by simp
    next
      case False
      show ?thesis
      proof (cases "length t \<le> 200")
        case True
        with Some False show ?thesis
          using validateProductInfo_title_passed [of p t] unfolding ok by simp
      next
        case long: False
        with Some False show ?thesis
          using validateProductInfo_long [of p t] unfolding ok by simp
      qed
    qed
  qed
  have c2: "title p = None \<longrightarrow>
        validateProductInfo p = Inl (Error (lit ''Product title is required''))"
    using validateProductInfo_blank [of p] by simp
  have c3: "\<forall>t. title p = Some t \<and> list_all isWhiteSpace t \<longrightarrow>
        validateProductInfo p = Inl (Error (lit ''Product title is required''))"
    using validateProductInfo_blank [of p] by simp
  have c4: "\<forall>t. title p = Some t \<and> \<not> list_all isWhiteSpace t \<and> 200 < length t \<longrightarrow>
        validateProductInfo p = Inl (Error (lit ''Product title must not exceed 200 characters''))"
    using validateProductInfo_long [of p] by simp
  have c5: "Number_isInteger (amount p) \<and> \<not> num_lt (amount p) (Finite 500)
        \<and> \<not> num_gt (amount p) (Finite 500000) \<and> \<not> longer_than (description p) 1000 \<longrightarrow>
        (validateProductInfo p = Inr ()) = ?ok"
  proof
    assume a: "Number_isInteger (amount p) \<and> \<not> num_lt (amount p) (Finite 500)
        \<and> \<not> num_gt (amount p) (Finite 500000) \<and> \<not> longer_than (description p) 1000"
    show "(validateProductInfo p = Inr ()) = ?ok"
    proof
      assume "validateProductInfo p = Inr ()"
      then have "validateProductInfo p \<noteq> Inl (Error (lit ''Product title is required''))
        \<and> validateProductInfo p \<noteq> Inl (Error (lit ''Product title must not exceed 200 characters''))"
        by simp
      with c1 show ?ok by blast
    next
      assume ?ok
      then obtain t where t: "title p = Some t" "\<not> list_all isWhiteSpace t" "length t \<le> 200"
        unfolding ok by blast
      from t(2) have "trim t \<noteq> []" by (simp add: trim_eq_Nil)
      from validateProductInfo_title_ok [OF t(1) this t(3)] a
      show "validateProductInfo p = Inr ()" by simp
    qed
  qed
  from c1 c2 c3 c4 c5 title_messages_distinct show ?thesis by blast
qed

theorem C5_title_length_witness:
  "validateProductInfo \<lparr>title = None, amount = Finite 5000, description = None\<rparr>
     = Inl (Error (lit ''Product title is required''))
   \<and> validateProductInfo \<lparr>title = Some (lit ''   ''), amount = Finite 5000, description = None\<rparr>
     = Inl (Error (lit ''Product title is required''))
   \<and> validateProductInfo \<lparr>title = Some (0x61 # replicate 200 0x61), amount = Finite 5000,
        description = None\<rparr>
     = Inl (Error (lit ''Product title must not exceed 200 characters''))
   \<and> validateProductInfo \<lparr>title = Some (0x61 # replicate 199 0x61), amount = Finite 5000,
        description = None\<rparr>
     = Inr ()"
proof -
  let ?p = "\<lambda>t. \<lparr>title = t, amount = Finite 5000, description = None\<rparr>"
  note missing = C5_title_length [THEN conjunct2, THEN conjunct1, rule_format]
  note blank = C5_title_length [THEN conjunct2, THEN conjunct2, THEN conjunct1, rule_format]
  note long = C5_title_length [THEN conjunct2, THEN conjunct2, THEN conjunct2, THEN conjunct1,
    rule_format]
  note pass = C5_title_length [THEN conjunct2, THEN conjunct2, THEN conjunct2, THEN conjunct2,
    THEN conjunct1, rule_format]
  have w: "\<not> isWhiteSpace 0x61" by (simp add: isWhiteSpace_def)
  have a: "validateProductInfo (?p None) = Inl (Error (lit ''Product title is required''))"
    by (rule missing) simp
  have b: "validateProductInfo (?p (Some (lit ''   '')))
      = Inl (Error (lit ''Product title is required''))"
    by (rule blank [of _ "lit ''   ''"]) (simp add: lit_def isWhiteSpace_def)
  have c: "validateProductInfo (?p (Some (0x61 # replicate 200 0x61)))
      = Inl (Error (lit ''Product title must not exceed 200 characters''))"
    by (rule long [of _ "0x61 # replicate 200 0x61"]) (simp add: w)
  have "(validateProductInfo (?p (Some (0x61 # replicate 199 0x61))) = Inr ())
      = (\<exists>t. title (?p (Some (0x61 # replicate 199 0x61))) = Some t
            \<and> 1 \<le> effective_title_length t \<and> effective_title_length t \<le> 200)"
    by (rule pass) (simp add: num_gt_def longer_than_def)
  moreover have "effective_title_length (0x61 # replicate 199 0x61) = 200"
    by (simp add: effective_title_length_def w)
  ultimately have d: "validateProductInfo (?p (Some (0x61 # replicate 199 0x61))) = Inr ()"
    by simp
  from a b c d show ?thesis by blast
qed

section \<open>The error classifier\<close>

text \<open>
  Claim C2. \<open>handleException\<close> chooses the exception class from the status of the
  response alone: 400 gives \<open>ValidationException\<close>, 403 \<open>UnauthorizedException\<close>, 404
  \<open>NotFoundException\<close>, 410 \<open>PaymentExpiredException\<close>, and every other status as well
  as a missing response gives the plain \<open>ApiException\<close>; the base class is never
  instantiated. For status 410 with the body
  \<open>{success: false, message: "Link expired", meta: {requestId: "req-1"}}\<close> the result is
  the expired-link exception with message ``Link expired'', status code 410 and request
  id ``req-1''.
\<close>

theorem C2_status_mapping:
  "(\<forall>r. response e = Some r \<and> status r = 400 \<longrightarrow> name (handleException e) = ValidationException)
   \<and> (\<forall>r. response e = Some r \<and> status r = 403 \<longrightarrow> name (handleException e) = UnauthorizedException)
   \<and> (\<forall>r. response e = Some r \<and> status r = 404 \<longrightarrow> name (handleException e) = NotFoundException)
   \<and> (\<forall>r. response e = Some r \<and> status r = 410 \<longrightarrow>
         name (handleException e) = PaymentExpiredException)
   \<and> (\<forall>r. response e = Some r \<and> status r \<noteq> 400 \<and> status r \<noteq> 403 \<and> status r \<noteq> 404
          \<and> status r \<noteq> 410 \<longrightarrow> name (handleException e) = ApiException)
   \<and> (response e = None \<longrightarrow> name (handleException e) = ApiException)
   \<and> name (handleException e) \<noteq> OCPayException
   \<and> handleException expired_error =
        \<lparr>name = PaymentExpiredException, error_message = lit ''Link expired'',
         statusCode = Some 410, exn_requestId = Some (lit ''req-1''),
         errorData = Some expired_body\<rparr>"
proof -
  have "handleException expired_error =
        \<lparr>name = PaymentExpiredException, error_message = lit ''Link expired'',
         statusCode = Some 410, exn_requestId = Some (lit ''req-1''),
         errorData = Some expired_body\<rparr>"
    by (simp add: handleException_def expired_error_def expired_body_def Let_def new_exception_defs or_else_def
        lit_def)
  moreover have "name (handleException e) \<noteq> OCPayException"
    by (simp add: handleException_name split: option.split)
  ultimately show ?thesis
    by (simp add: handleException_name)
qed

theorem C2_status_mapping_witness:
  "name (handleException expired_error) = PaymentExpiredException
   \<and> name (handleException \<lparr>axios_message = lit ''Network Error'',
        response = (None :: unit AxiosResponse option)\<rparr>) = ApiException"
proof -
  have a: "name (handleException expired_error) = PaymentExpiredException"
    by (rule C2_status_mapping [THEN conjunct2, THEN conjunct2, THEN conjunct2, THEN conjunct1,
          rule_format, of _ "the (response expired_error)"])
       (simp add: expired_error_def)
  have b: "name (handleException \<lparr>axios_message = lit ''Network Error'',
        response = (None :: unit AxiosResponse option)\<rparr>) = ApiException"
    by (rule C2_status_mapping [THEN conjunct2, THEN conjunct2, THEN conjunct2, THEN conjunct2,
          THEN conjunct2, THEN conjunct1, rule_format]) simp
  from a b show ?thesis by blast
qed

text \<open>
  Claim C3 says that the exception of a logical failure carries the body's message
  whenever the field is present. The source writes \<open>data.message || 'API request failed'\<close>,
  so a message that is present but empty is replaced by the fallback text.
\<close>

theorem C3_counterexample:
  "success empty_message_body = False \<and> message empty_message_body = Some []
   \<and> handleResponse empty_message_body =
       Inl \<lparr>name = ApiException, error_message = lit ''API request failed'',
            statusCode = Some 0, exn_requestId = None, errorData = Some empty_message_body\<rparr>
   \<and> lit ''API request failed'' \<noteq> []"
  by (simp add: handleResponse_def empty_message_body_def Let_def new_exception_defs
      or_else_def lit_def)

text \<open>
  Claim C3, amended. A body with \<open>success: false\<close> makes \<open>handleResponse\<close> raise a plain
  \<open>ApiException\<close>, whatever the status of the fulfilled response was; its message is the
  body's message when that is present and not empty, and the fixed text
  ``API request failed'' when the message is absent or empty. Status 200 with the body
  \<open>{success: false, message: "insufficient balance"}\<close> yields a plain \<open>ApiException\<close>
  with that message.
\<close>

theorem C3_logical_failure:
  "(success b = False \<longrightarrow>
      (\<exists>x. handleResponse b = Inl x \<and> name x = ApiException
          \<and> (\<forall>m. message b = Some m \<and> m \<noteq> [] \<longrightarrow> error_message x = m)
          \<and> (message b = None \<or> message b = Some [] \<longrightarrow>
                error_message x = lit ''API request failed'')))
   \<and> (\<forall>net sent req st. net req = Fulfilled st b \<longrightarrow>
         httpClient net sent req = (handleResponse b, sent @ [req]))
   \<and> fst (Client_get (\<lambda>req :: unit request. Fulfilled 200 balance_body) []
            (lit ''/v3/ocpay/checkPayment/X''))
       = Inl \<lparr>name = ApiException, error_message = lit ''insufficient balance'',
              statusCode = Some 0, exn_requestId = None, errorData = Some balance_body\<rparr>"
proof -
  have a: "success b = False \<longrightarrow>
      (\<exists>x. handleResponse b = Inl x \<and> name x = ApiException
          \<and> (\<forall>m. message b = Some m \<and> m \<noteq> [] \<longrightarrow> error_message x = m)
          \<and> (message b = None \<or> message b = Some [] \<longrightarrow>
                error_message x = lit ''API request failed''))"
    by (auto simp: handleResponse_failure or_else_simps)
  have b: "\<forall>net sent req st. net req = Fulfilled st b \<longrightarrow>
         httpClient net sent req = (handleResponse b, sent @ [req])"
    by (simp add: httpClient_Fulfilled)
  have c: "fst (Client_get (\<lambda>req :: unit request. Fulfilled 200 balance_body) []
            (lit ''/v3/ocpay/checkPayment/X''))
       = Inl \<lparr>name = ApiException, error_message = lit ''insufficient balance'',
              statusCode = Some 0, exn_requestId = None, errorData = Some balance_body\<rparr>"
    by (simp add: Client_get_def httpClient_def handleResponse_def Let_def new_exception_defs
        balance_body_def or_else_def lit_def)
  from a b c show ?thesis by blast
qed

theorem C3_logical_failure_witness:
  "success balance_body = False
   \<and> (\<exists>x. handleResponse balance_body = Inl x \<and> name x = ApiException
          \<and> error_message x = lit ''insufficient balance'')"
proof -
  have s: "success balance_body = False" by (simp add: balance_body_def)
  have m: "message balance_body = Some (lit ''insufficient balance'')
      \<and> lit ''insufficient balance'' \<noteq> []"
    by (simp add: balance_body_def lit_def)
  from C3_logical_failure [THEN conjunct1, rule_format, OF s] m s show ?thesis by blast
qed

text \<open>
  Claim C4 says that the status code of an exception is 0 exactly when no HTTP response
  was received, on every path, and that the message is the body's message whenever that
  is present. On the logical-failure path \<open>handleResponse\<close> passes the literal 0: a payment
  check answered with status 200 and a \<open>success: false\<close> body ends in an exception with
  status code 0. And an empty message of the body is replaced by the message of the HTTP
  library.
\<close>

theorem C4_counterexample:
  "checkPayment (\<lambda>req :: unit request. Fulfilled 200 balance_body) []
       (lit ''OCPL-A1B2C3-D4E5'')
     = (Inl (Api \<lparr>name = ApiException, error_message = lit ''insufficient balance'',
                  statusCode = Some 0, exn_requestId = None, errorData = Some balance_body\<rparr>),
        [GET (lit ''/v3/ocpay/checkPayment/OCPL-A1B2C3-D4E5'')])
   \<and> error_message (handleException
        \<lparr>axios_message = lit ''Request failed with status code 500'',
         response = Some \<lparr>status = 500, response_data = Some empty_message_body\<rparr>\<rparr>)
       = lit ''Request failed with status code 500''
   \<and> lit ''Request failed with status code 500'' \<noteq> []"
proof -
  have nb: "\<not> list_all isWhiteSpace (lit ''OCPL-A1B2C3-D4E5'')"
    by (simp add: lit_def isWhiteSpace_def)
  have a: "checkPayment (\<lambda>req :: unit request. Fulfilled 200 balance_body) []
       (lit ''OCPL-A1B2C3-D4E5'')
     = (Inl (Api \<lparr>name = ApiException, error_message = lit ''insufficient balance'',
                  statusCode = Some 0, exn_requestId = None, errorData = Some balance_body\<rparr>),
        [GET (lit ''/v3/ocpay/checkPayment/OCPL-A1B2C3-D4E5'')])"
    unfolding checkPayment_not_blank [OF nb]
    by (simp add: Client_get_def httpClient_def handleResponse_def Let_def new_exception_defs
        balance_body_def or_else_def lit_def ENDPOINT_CHECK_PAYMENT_def)
  have b: "error_message (handleException
        \<lparr>axios_message = lit ''Request failed with status code 500'',
         response = Some \<lparr>status = 500, response_data = Some empty_message_body\<rparr>\<rparr>)
       = lit ''Request failed with status code 500''"
    by (simp add: handleException_message empty_message_body_def or_else_def)
  have c: "lit ''Request failed with status code 500'' \<noteq> []" by (simp add: lit_def)
  from a b c show ?thesis by blast
qed

text \<open>
  Claim C4, amended. An exception built by \<open>handleException\<close> carries the body's message
  when the response has a body with a message that is not empty, and the message of the
  HTTP library otherwise; the status of the response, and 0 when there is no response (so
  for responses with a non-zero status, 0 exactly when no response was received); the
  \<open>meta.requestId\<close> of the body, if any; and the body itself. An exception built by
  \<open>handleResponse\<close> for a \<open>success: false\<close> body carries the body's message when that is
  not empty and ``API request failed'' otherwise, always the status code 0, the
  \<open>meta.requestId\<close> of the body, and the body.
\<close>

theorem C4_exception_fields:
  "(\<forall>r d m. response e = Some r \<and> response_data r = Some d \<and> message d = Some m \<and> m \<noteq> []
       \<longrightarrow> error_message (handleException e) = m)
   \<and> (\<not> truthy (Option.bind (Option.bind (response e) response_data) message)
       \<longrightarrow> error_message (handleException e) = axios_message e)
   \<and> (response e = None \<longrightarrow> statusCode (handleException e) = Some 0)
   \<and> (\<forall>r. response e = Some r \<longrightarrow> statusCode (handleException e) = Some (status r))
   \<and> (\<forall>r. response e = Some r \<and> status r \<noteq> 0 \<longrightarrow> statusCode (handleException e) \<noteq> Some 0)
   \<and> exn_requestId (handleException e)
       = Option.bind (Option.bind (Option.bind (response e) response_data) meta) requestId
   \<and> errorData (handleException e) = Option.bind (response e) response_data
   \<and> (success b = False \<longrightarrow>
        (\<exists>x. handleResponse b = Inl x
            \<and> (\<forall>m. message b = Some m \<and> m \<noteq> [] \<longrightarrow> error_message x = m)
            \<and> (\<not> truthy (message b) \<longrightarrow> error_message x = lit ''API request failed'')
            \<and> statusCode x = Some 0
            \<and> exn_requestId x = Option.bind (meta b) requestId
            \<and> errorData x = Some b))"
proof -
  have m1: "\<forall>r d m. response e = Some r \<and> response_data r = Some d \<and> message d = Some m \<and> m \<noteq> []
       \<longrightarrow> error_message (handleException e) = m"
    by (auto simp: handleException_message or_else_simps)
  have m2: "\<not> truthy (Option.bind (Option.bind (response e) response_data) message)
       \<longrightarrow> error_message (handleException e) = axios_message e"
    by (auto simp: handleException_message truthy_def or_else_def split: option.splits)
  have s1: "response e = None \<longrightarrow> statusCode (handleException e) = Some 0"
    by (simp add: handleException_statusCode)
  have s2: "\<forall>r. response e = Some r \<longrightarrow> statusCode (handleException e) = Some (status r)"
    by (simp add: handleException_statusCode)
  have s3: "\<forall>r. response e = Some r \<and> status r \<noteq> 0 \<longrightarrow> statusCode (handleException e) \<noteq> Some 0"
    by (simp add: handleException_statusCode)
  have l: "success b = False \<longrightarrow>
        (\<exists>x. handleResponse b = Inl x
            \<and> (\<forall>m. message b = Some m \<and> m \<noteq> [] \<longrightarrow> error_message x = m)
            \<and> (\<not> truthy (message b) \<longrightarrow> error_message x = lit ''API request failed'')
            \<and> statusCode x = Some 0
            \<and> exn_requestId x = Option.bind (meta b) requestId
            \<and> errorData x = Some b)"
    by (auto simp: handleResponse_failure or_else_def truthy_def split: option.splits)
  from m1 m2 s1 s2 s3 l handleException_requestId [of e] handleException_errorData [of e]
  show ?thesis by blast
qed

theorem C4_exception_fields_witness:
  "error_message (handleException expired_error) = lit ''Link expired''
   \<and> statusCode (handleException expired_error) = Some 410
   \<and> statusCode (handleException network_error) = Some 0
   \<and> error_message (handleException network_error) = lit ''Network Error''
   \<and> (\<exists>x. handleResponse balance_body = Inl x \<and> statusCode x = Some 0
          \<and> error_message x = lit ''insufficient balance'')"
proof -
  note f = C4_exception_fields [of expired_error balance_body]
  note g = C4_exception_fields [of network_error balance_body]
  have a: "error_message (handleException expired_error) = lit ''Link expired''"
    by (rule f [THEN conjunct1, rule_format, of "the (response expired_error)"
          "the (response_data (the (response expired_error)))"])
       (simp add: expired_error_def expired_body_def lit_def)
  have "statusCode (handleException expired_error)
      = Some (status \<lparr>status = 410, response_data = Some expired_body\<rparr>)"
    by (rule f [THEN conjunct2, THEN conjunct2, THEN conjunct2, THEN conjunct1, rule_format])
       (simp add: expired_error_def)
  then have b: "statusCode (handleException expired_error) = Some 410" by simp
  have c: "statusCode (handleException network_error) = Some 0"
    by (rule g [THEN conjunct2, THEN conjunct2, THEN conjunct1, rule_format])
       (simp add: network_error_def)
  have "error_message (handleException network_error) = axios_message network_error"
    by (rule g [THEN conjunct2, THEN conjunct1, rule_format])
       (simp add: network_error_def truthy_def)
  then have d: "error_message (handleException network_error) = lit ''Network Error''"
    by (simp add: network_error_def)
  have s: "success balance_body = False" by (simp add: balance_body_def)
  have m: "message balance_body = Some (lit ''insufficient balance'')
      \<and> lit ''insufficient balance'' \<noteq> []"
    by (simp add: balance_body_def lit_def)
  from f [THEN conjunct2, THEN conjunct2, THEN conjunct2, THEN conjunct2, THEN conjunct2,
      THEN conjunct2, THEN conjunct2, rule_format, OF s] m
  have e: "\<exists>x. handleResponse balance_body = Inl x \<and> statusCode x = Some 0
          \<and> error_message x = lit ''insufficient balance''" by blast
  from a b c d e show ?thesis by blast
qed

text \<open>
  Claim C9 says that the (status code, body) pair determines the message of the
  exception. A call that failed for want of a network and a call that timed out both have
  no status and no body, and their exceptions carry different messages, since the message
  falls back to the one of the HTTP library.
\<close>

theorem C9_counterexample:
  "map_option status (response network_error) = map_option status (response timeout_error)
   \<and> Option.bind (response network_error) response_data
       = Option.bind (response timeout_error) response_data
   \<and> error_message (handleException network_error) = lit ''Network Error''
   \<and> error_message (handleException timeout_error) = lit ''timeout of 30000ms exceeded''
   \<and> error_message (handleException network_error) \<noteq> error_message (handleException timeout_error)"
  by (simp add: handleException_message network_error_def timeout_error_def or_else_def lit_def)

text \<open>
  Claim C9, amended. Two failed calls with the same status code (or both without a
  response) and the same body (or both without one) are classified with the same
  exception class, the same status code, the same request id and the same raw body; the
  message, and with it the whole exception, is the same too when the body carries a
  non-empty message or when the two calls carry the same message of the HTTP library.
\<close>

theorem C9_same_status_and_body:
  "map_option status (response e1) = map_option status (response e2)
   \<and> Option.bind (response e1) response_data = Option.bind (response e2) response_data
   \<longrightarrow> name (handleException e1) = name (handleException e2)
     \<and> statusCode (handleException e1) = statusCode (handleException e2)
     \<and> exn_requestId (handleException e1) = exn_requestId (handleException e2)
     \<and> errorData (handleException e1) = errorData (handleException e2)
     \<and> (truthy (Option.bind (Option.bind (response e1) response_data) message)
          \<or> axios_message e1 = axios_message e2
        \<longrightarrow> error_message (handleException e1) = error_message (handleException e2)
            \<and> handleException e1 = handleException e2)"
proof
  assume h: "map_option status (response e1) = map_option status (response e2)
   \<and> Option.bind (response e1) response_data = Option.bind (response e2) response_data"
  then have d: "Option.bind (response e1) response_data = Option.bind (response e2) response_data"
    by simp
  from h have n: "name (handleException e1) = name (handleException e2)"
    unfolding handleException_name by (cases "response e1"; cases "response e2") auto
  from h have s: "statusCode (handleException e1) = statusCode (handleException e2)"
    unfolding handleException_statusCode by (cases "response e1"; cases "response e2") auto
  have r: "exn_requestId (handleException e1) = exn_requestId (handleException e2)"
    by (simp add: handleException_requestId d)
  have ed: "errorData (handleException e1) = errorData (handleException e2)"
    by (simp add: handleException_errorData d)
  have m: "truthy (Option.bind (Option.bind (response e1) response_data) message)
          \<or> axios_message e1 = axios_message e2
        \<longrightarrow> error_message (handleException e1) = error_message (handleException e2)"
    by (auto simp: handleException_message d truthy_def or_else_def split: option.splits)
  have eq: "error_message (handleException e1) = error_message (handleException e2)
      \<longrightarrow> handleException e1 = handleException e2"
    using n s r ed by (simp add: exception_object.equality)
  from n s r ed m eq
  show "name (handleException e1) = name (handleException e2)
     \<and> statusCode (handleException e1) = statusCode (handleException e2)
     \<and> exn_requestId (handleException e1) = exn_requestId (handleException e2)
     \<and> errorData (handleException e1) = errorData (handleException e2)
     \<and> (truthy (Option.bind (Option.bind (response e1) response_data) message)
          \<or> axios_message e1 = axios_message e2
        \<longrightarrow> error_message (handleException e1) = error_message (handleException e2)
            \<and> handleException e1 = handleException e2)" by blast
qed

theorem C9_same_status_and_body_witness:
  "handleException expired_error
     = handleException (expired_error\<lparr>axios_message := lit ''Gone''\<rparr>)
   \<and> name (handleException network_error) = name (handleException timeout_error)
   \<and> statusCode (handleException network_error) = statusCode (handleException timeout_error)"
proof -
  have a: "handleException expired_error
     = handleException (expired_error\<lparr>axios_message := lit ''Gone''\<rparr>)"
    using C9_same_status_and_body [of expired_error "expired_error\<lparr>axios_message := lit ''Gone''\<rparr>"]
    by (simp add: expired_error_def expired_body_def truthy_def lit_def)
  have b: "name (handleException network_error) = name (handleException timeout_error)
   \<and> statusCode (handleException network_error) = statusCode (handleException timeout_error)"
    using C9_same_status_and_body [of network_error timeout_error]
    by (simp add: network_error_def timeout_error_def)
  from a b show ?thesis by blast
qed

section \<open>Redirect URL, payment reference and fee mode\<close>

text \<open>
  Claim C6 says that a redirect URL that is present passes exactly when it parses as an
  absolute URL with scheme http or https. The check is
  \<open>request.redirectUrl && !isValidUrl(...)\<close>: the empty string is falsy, so it is treated
  like an absent redirect URL and passes, although it is no URL.
\<close>

theorem C6_counterexample:
  "URL_scheme_stage [] = None
   \<and> validateCreateLinkRequest URL_scheme_stage (sample_request\<lparr>redirectUrl := Some []\<rparr>) = Inr ()"
proof -
  have a: "URL_scheme_stage [] = None" by (simp add: URL_scheme_stage_def)
  have b: "validateCreateLinkRequest URL_scheme_stage (sample_request\<lparr>redirectUrl := Some []\<rparr>)
      = Inr ()"
    using sample_request_valid [of URL_scheme_stage]
    by (auto simp: validateCreateLinkRequest_Inr)
  from a b show ?thesis by blast
qed

text \<open>
  Claim C6, amended. When the rest of the request is valid: the empty string passes, like
  an absent redirect URL; a redirect URL that is not empty passes only if the \<open>URL\<close>
  constructor accepts it, and then (the constructor giving protocol \<open>http:\<close> to an input
  that begins with \<open>http://\<close> and \<open>https:\<close> to one that begins with \<open>https://\<close>) its
  scheme is http or https; a redirect URL that the constructor accepts and that is written
  with the prefix \<open>http://\<close> or \<open>https://\<close> passes. A redirect URL that does not pass
  raises the redirect-URL error and \<open>createLink\<close> rejects without handing any request to
  the network; a request without redirect URL never raises that error. Nothing is said
  about a URL with scheme http or https that is not written with one of the two prefixes.
\<close>

theorem C6_redirect_url:
  assumes "validateCreateLinkRequest URL (r\<lparr>redirectUrl := None\<rparr>) = Inr ()"
  shows "validateCreateLinkRequest URL (r\<lparr>redirectUrl := Some []\<rparr>) = Inr ()
       \<and> (u \<noteq> [] \<and> validateCreateLinkRequest URL (r\<lparr>redirectUrl := Some u\<rparr>) = Inr ()
            \<longrightarrow> URL u \<noteq> None)
       \<and> ((\<forall>v p. URL v = Some p \<and> startsWith v (lit ''http://'') \<longrightarrow> p = lit ''http:'')
            \<and> (\<forall>v p. URL v = Some p \<and> startsWith v (lit ''https://'') \<longrightarrow> p = lit ''https:'')
            \<longrightarrow> (u \<noteq> [] \<and> validateCreateLinkRequest URL (r\<lparr>redirectUrl := Some u\<rparr>) = Inr ()
                  \<longrightarrow> URL u = Some (lit ''http:'') \<or> URL u = Some (lit ''https:'')))
       \<and> (URL u \<noteq> None \<and> (startsWith u (lit ''http://'') \<or> startsWith u (lit ''https://''))
            \<longrightarrow> validateCreateLinkRequest URL (r\<lparr>redirectUrl := Some u\<rparr>) = Inr ())
       \<and> (validateCreateLinkRequest URL (r\<lparr>redirectUrl := Some u\<rparr>) \<noteq> Inr () \<longrightarrow>
            validateCreateLinkRequest URL (r\<lparr>redirectUrl := Some u\<rparr>)
              = Inl (Error (lit ''Redirect URL must be a valid HTTP/HTTPS URL''))
            \<and> createLink URL net sent (r\<lparr>redirectUrl := Some u\<rparr>)
              = (Inl (Local (Error (lit ''Redirect URL must be a valid HTTP/HTTPS URL''))), sent))
       \<and> (\<forall>q. redirectUrl q = None \<longrightarrow>
            validateCreateLinkRequest URL q
              \<noteq> Inl (Error (lit ''Redirect URL must be a valid HTTP/HTTPS URL'')))"
proof -
  from assms obtain p where p: "productInfo r = Some p" "validateProductInfo p = Inr ()"
      "fee_mode_check (feeMode r) = Inr ()" "\<not> longer_than (successMessage r) 500"
    by (auto simp: validateCreateLinkRequest_Inr)
  have v: "validateCreateLinkRequest URL (r\<lparr>redirectUrl := Some w\<rparr>)
      = (if w \<noteq> [] \<and> \<not> isValidUrl URL w
         then Inl (Error (lit ''Redirect URL must be a valid HTTP/HTTPS URL'')) else Inr ())" for w
    using p by (simp add: validateCreateLinkRequest_unfold)
  have iv: "isValidUrl URL u = (URL u \<noteq> None
      \<and> (startsWith u (lit ''http://'') \<or> startsWith u (lit ''https://'')))"
    by (simp add: isValidUrl_def split: option.split)
  have e: "validateCreateLinkRequest URL (r\<lparr>redirectUrl := Some []\<rparr>) = Inr ()"
    by (simp add: v)
  have ok: "(validateCreateLinkRequest URL (r\<lparr>redirectUrl := Some u\<rparr>) = Inr ())
           = (u = [] \<or> (URL u \<noteq> None
                \<and> (startsWith u (lit ''http://'') \<or> startsWith u (lit ''https://''))))"
    unfolding v iv by auto
  have a: "u \<noteq> [] \<and> validateCreateLinkRequest URL (r\<lparr>redirectUrl := Some u\<rparr>) = Inr ()
            \<longrightarrow> URL u \<noteq> None"
    unfolding ok by blast
  have s: "(\<forall>v p. URL v = Some p \<and> startsWith v (lit ''http://'') \<longrightarrow> p = lit ''http:'')
            \<and> (\<forall>v p. URL v = Some p \<and> startsWith v (lit ''https://'') \<longrightarrow> p = lit ''https:'')
            \<longrightarrow> (u \<noteq> [] \<and> validateCreateLinkRequest URL (r\<lparr>redirectUrl := Some u\<rparr>) = Inr ()
                  \<longrightarrow> URL u = Some (lit ''http:'') \<or> URL u = Some (lit ''https:''))"
    unfolding ok by auto
  have f: "URL u \<noteq> None \<and> (startsWith u (lit ''http://'') \<or> startsWith u (lit ''https://''))
            \<longrightarrow> validateCreateLinkRequest URL (r\<lparr>redirectUrl := Some u\<rparr>) = Inr ()"
    unfolding ok by blast
  have b: "validateCreateLinkRequest URL (r\<lparr>redirectUrl := Some u\<rparr>) \<noteq> Inr () \<longrightarrow>
            validateCreateLinkRequest URL (r\<lparr>redirectUrl := Some u\<rparr>)
              = Inl (Error (lit ''Redirect URL must be a valid HTTP/HTTPS URL''))
            \<and> createLink URL net sent (r\<lparr>redirectUrl := Some u\<rparr>)
              = (Inl (Local (Error (lit ''Redirect URL must be a valid HTTP/HTTPS URL''))), sent)"
  proof
    assume "validateCreateLinkRequest URL (r\<lparr>redirectUrl := Some u\<rparr>) \<noteq> Inr ()"
    with v [of u] have e: "validateCreateLinkRequest URL (r\<lparr>redirectUrl := Some u\<rparr>)
        = Inl (Error (lit ''Redirect URL must be a valid HTTP/HTTPS URL''))"
      by (simp split: if_splits)
    with createLink_invalid [OF e]
    show "validateCreateLinkRequest URL (r\<lparr>redirectUrl := Some u\<rparr>)
              = Inl (Error (lit ''Redirect URL must be a valid HTTP/HTTPS URL''))
            \<and> createLink URL net sent (r\<lparr>redirectUrl := Some u\<rparr>)
              = (Inl (Local (Error (lit ''Redirect URL must be a valid HTTP/HTTPS URL''))), sent)"
      by simp
  qed
  have c: "\<forall>q. redirectUrl q = None \<longrightarrow>
            validateCreateLinkRequest URL q
              \<noteq> Inl (Error (lit ''Redirect URL must be a valid HTTP/HTTPS URL''))"
  proof (intro allI impI)
    fix q :: CreateLinkRequest
    assume "redirectUrl q = None"
    then show "validateCreateLinkRequest URL q
              \<noteq> Inl (Error (lit ''Redirect URL must be a valid HTTP/HTTPS URL''))"
      using validateProductInfo_not_redirect redirect_message_distinct
      by (auto simp: validateCreateLinkRequest_unfold fee_mode_check_eq
          split: option.splits sum.splits if_splits)
  qed
  from e a s f b c show ?thesis by blast
qed

theorem C6_redirect_url_witness:
  "validateCreateLinkRequest URL_scheme_stage (sample_request\<lparr>redirectUrl := None\<rparr>) = Inr ()
   \<and> validateCreateLinkRequest URL_scheme_stage (sample_request\<lparr>redirectUrl := Some []\<rparr>) = Inr ()
   \<and> validateCreateLinkRequest URL_scheme_stage
        (sample_request\<lparr>redirectUrl := Some (lit ''https://yourstore.com/success'')\<rparr>) = Inr ()
   \<and> URL_scheme_stage (lit ''https://yourstore.com/success'') = Some (lit ''https:'')
   \<and> createLink URL_scheme_stage (\<lambda>req. Rejected network_error) []
        (sample_request\<lparr>redirectUrl := Some (lit ''yourstore.com/success'')\<rparr>)
       = (Inl (Local (Error (lit ''Redirect URL must be a valid HTTP/HTTPS URL''))), [])"
proof -
  let ?good = "lit ''https://yourstore.com/success''"
  let ?bad = "lit ''yourstore.com/success''"
  have h: "validateCreateLinkRequest URL_scheme_stage (sample_request\<lparr>redirectUrl := None\<rparr>)
      = Inr ()"
    using sample_request_valid [of URL_scheme_stage] by (simp add: sample_request_def)
  note r = C6_redirect_url [OF h]
  have faithful:
    "(\<forall>v p. URL_scheme_stage v = Some p \<and> startsWith v (lit ''http://'') \<longrightarrow> p = lit ''http:'')
     \<and> (\<forall>v p. URL_scheme_stage v = Some p \<and> startsWith v (lit ''https://'') \<longrightarrow> p = lit ''https:'')"
    using URL_scheme_stage_http URL_scheme_stage_https by auto
  have g: "?good \<noteq> [] \<and> URL_scheme_stage ?good \<noteq> None \<and> startsWith ?good (lit ''https://'')
      \<and> URL_scheme_stage ?good \<noteq> Some (lit ''http:'')"
    by (simp add: URL_scheme_stage_def lit_def isC0ControlOrSpace_def isAsciiTabOrNewline_def
        isAsciiAlpha_def isAsciiDigit_def asciiLower_def startsWith_def)
  have n: "?bad \<noteq> [] \<and> URL_scheme_stage ?bad = None"
    by (simp add: URL_scheme_stage_def lit_def isC0ControlOrSpace_def isAsciiTabOrNewline_def
        isAsciiAlpha_def isAsciiDigit_def asciiLower_def)
  have e: "validateCreateLinkRequest URL_scheme_stage (sample_request\<lparr>redirectUrl := Some []\<rparr>)
      = Inr ()"
    by (rule r [THEN conjunct1])
  from r [THEN conjunct2, THEN conjunct2, THEN conjunct2, THEN conjunct1, of ?good] g
  have a: "validateCreateLinkRequest URL_scheme_stage
        (sample_request\<lparr>redirectUrl := Some ?good\<rparr>) = Inr ()"
    by blast
  from r [THEN conjunct2, THEN conjunct2, THEN conjunct1, of ?good] faithful g a
  have s: "URL_scheme_stage ?good = Some (lit ''https:'')" by blast
  from r [THEN conjunct2, THEN conjunct1, of ?bad] n
  have "validateCreateLinkRequest URL_scheme_stage
        (sample_request\<lparr>redirectUrl := Some ?bad\<rparr>) \<noteq> Inr ()"
    by auto
  with r [THEN conjunct2, THEN conjunct2, THEN conjunct2, THEN conjunct2, THEN conjunct1,
      of ?bad "\<lambda>req. Rejected network_error" "[]"]
  have b: "createLink URL_scheme_stage (\<lambda>req. Rejected network_error) []
        (sample_request\<lparr>redirectUrl := Some ?bad\<rparr>)
       = (Inl (Local (Error (lit ''Redirect URL must be a valid HTTP/HTTPS URL''))), [])"
    by blast
  from h e a s b show ?thesis by blast
qed

text \<open>
  \<open>isValidUrl\<close> runs the \<open>URL\<close> constructor and then looks for the prefix in the text
  of the input rather than at the protocol of the parsed URL, so an input written with an
  upper-case scheme is rejected although it parses with protocol \<open>http:\<close>.
\<close>

lemma upper_case_scheme_rejected:
  "URL_scheme_stage (lit ''HTTP://example.com'') = Some (lit ''http:'')
   \<and> isValidUrl URL_scheme_stage (lit ''HTTP://example.com'') = False"
  by (simp add: isValidUrl_def startsWith_def URL_scheme_stage_def lit_def isC0ControlOrSpace_def
      isAsciiTabOrNewline_def isAsciiAlpha_def isAsciiDigit_def asciiLower_def)

text \<open>
  Claim C7 says that a blank payment reference makes \<open>checkPayment\<close> raise its error
  synchronously. The method is \<open>async\<close>: the \<open>throw\<close> in its body rejects the promise that
  the call returns, and the call itself does not throw.
\<close>

theorem C7_counterexample:
  "async_method (checkPayment (\<lambda>req :: unit request. Rejected network_error) [] [])
     = (Return (Rejects (Local (Error (lit ''Payment reference is required'')))), [])
   \<and> fst (async_method (checkPayment (\<lambda>req :: unit request. Rejected network_error) [] []))
     \<noteq> Throw (Local (Error (lit ''Payment reference is required'')))"
  by (simp add: async_method_def checkPayment_def)

text \<open>
  Claim C7, amended. For a payment reference that is empty or consists of white space
  only, the call of \<open>checkPayment\<close> returns a promise rejected with a bare \<open>Error\<close> (a
  message and nothing else), and no request is handed to the network. No call of
  \<open>checkPayment\<close> throws. For every other reference there is no local rejection: exactly
  one \<open>GET\<close> request for the reference is handed to the network, and the promise is
  settled by the client, rejected with an exception object or resolved with the data of
  the response.
\<close>

theorem C7_checkPayment_reference:
  "(list_all isWhiteSpace paymentRef \<longrightarrow>
      async_method (checkPayment net sent paymentRef)
        = (Return (Rejects (Local (Error (lit ''Payment reference is required'')))), sent))
   \<and> (\<forall>e. fst (async_method (checkPayment net sent paymentRef)) \<noteq> Throw e)
   \<and> (\<not> list_all isWhiteSpace paymentRef \<longrightarrow>
      snd (async_method (checkPayment net sent paymentRef))
        = sent @ [GET (ENDPOINT_CHECK_PAYMENT @ lit ''/'' @ paymentRef)]
      \<and> (\<forall>e. fst (async_method (checkPayment net sent paymentRef)) \<noteq> Return (Rejects (Local e)))
      \<and> fst (async_method (checkPayment net sent paymentRef))
          = Return (case net (GET (ENDPOINT_CHECK_PAYMENT @ lit ''/'' @ paymentRef)) of
               Rejected err \<Rightarrow> Rejects (Api (handleException err))
             | Fulfilled st body \<Rightarrow>
                 (case handleResponse body of
                    Inl ex \<Rightarrow> Rejects (Api ex)
                  | Inr resp \<Rightarrow> Resolves (data resp))))"
proof -
  have a: "list_all isWhiteSpace paymentRef \<longrightarrow>
      async_method (checkPayment net sent paymentRef)
        = (Return (Rejects (Local (Error (lit ''Payment reference is required'')))), sent)"
    by (simp add: async_method_def checkPayment_def trim_eq_Nil)
  have t: "\<forall>e. fst (async_method (checkPayment net sent paymentRef)) \<noteq> Throw e"
    by (simp add: async_method_def)
  have b: "\<not> list_all isWhiteSpace paymentRef \<longrightarrow>
      snd (async_method (checkPayment net sent paymentRef))
        = sent @ [GET (ENDPOINT_CHECK_PAYMENT @ lit ''/'' @ paymentRef)]
      \<and> (\<forall>e. fst (async_method (checkPayment net sent paymentRef)) \<noteq> Return (Rejects (Local e)))
      \<and> fst (async_method (checkPayment net sent paymentRef))
          = Return (case net (GET (ENDPOINT_CHECK_PAYMENT @ lit ''/'' @ paymentRef)) of
               Rejected err \<Rightarrow> Rejects (Api (handleException err))
             | Fulfilled st body \<Rightarrow>
                 (case handleResponse body of
                    Inl ex \<Rightarrow> Rejects (Api ex)
                  | Inr resp \<Rightarrow> Resolves (data resp)))"
    by (auto simp: async_method_def checkPayment_not_blank Client_get_def httpClient_def
        split: axios_outcome.splits sum.splits prod.splits)
  from a t b show ?thesis by blast
qed

theorem C7_checkPayment_reference_witness:
  "async_method (checkPayment (\<lambda>req :: unit request. Rejected network_error) [] [])
     = (Return (Rejects (Local (Error (lit ''Payment reference is required'')))), [])
   \<and> async_method (checkPayment (\<lambda>req :: unit request. Rejected network_error) [] (lit ''   ''))
     = (Return (Rejects (Local (Error (lit ''Payment reference is required'')))), [])
   \<and> snd (async_method (checkPayment (\<lambda>req :: unit request. Rejected network_error) []
         (lit ''OCPL-A1B2C3-D4E5'')))
     = [GET (ENDPOINT_CHECK_PAYMENT @ lit ''/'' @ lit ''OCPL-A1B2C3-D4E5'')]"
proof -
  let ?net = "\<lambda>req :: unit request. Rejected network_error"
  have a: "async_method (checkPayment ?net [] [])
      = (Return (Rejects (Local (Error (lit ''Payment reference is required'')))), [])"
    by (rule C7_checkPayment_reference [THEN conjunct1, rule_format]) simp
  have b: "async_method (checkPayment ?net [] (lit ''   ''))
     = (Return (Rejects (Local (Error (lit ''Payment reference is required'')))), [])"
    by (rule C7_checkPayment_reference [THEN conjunct1, rule_format])
       (simp add: lit_def isWhiteSpace_def)
  have nb: "\<not> list_all isWhiteSpace (lit ''OCPL-A1B2C3-D4E5'')"
    by (simp add: lit_def isWhiteSpace_def)
  from C7_checkPayment_reference [THEN conjunct2, THEN conjunct2, rule_format, OF nb, of ?net "[]"]
  have c: "snd (async_method (checkPayment ?net [] (lit ''OCPL-A1B2C3-D4E5'')))
     = [GET (ENDPOINT_CHECK_PAYMENT @ lit ''/'' @ lit ''OCPL-A1B2C3-D4E5'')]"
    by simp
  from a b c show ?thesis by blast
qed

text \<open>
  Claim C8. For a request that passes validation, \<open>createLink\<close> hands exactly one \<open>POST\<close>
  request to the network, whose body is the request except for the fee mode: product
  info, success message and redirect URL are those of the request. The fee mode is
  \<open>NO_FEE\<close> when the request has none (the body is the request with that one field set),
  and a fee mode that is one of the three valid values is sent as it is (the body is the
  request).
\<close>

theorem C8_createLink_frame:
  assumes "validateCreateLinkRequest URL r = Inr ()"
  shows "(\<exists>body. snd (createLink URL net sent r) = sent @ [POST ENDPOINT_CREATE_LINK body]
            \<and> productInfo body = productInfo r
            \<and> successMessage body = successMessage r
            \<and> redirectUrl body = redirectUrl r
            \<and> body = r\<lparr>feeMode := feeMode body\<rparr>
            \<and> (feeMode r = None \<longrightarrow> feeMode body = Some NO_FEE
                  \<and> body = r\<lparr>feeMode := Some NO_FEE\<rparr>)
            \<and> (\<forall>f. feeMode r = Some f \<and> (f = NO_FEE \<or> f = SPLIT_FEE \<or> f = CUSTOMER_FEE)
                  \<longrightarrow> feeMode body = Some f \<and> body = r))"
proof -
  let ?body = "r\<lparr>feeMode := Some (or_else (feeMode r) NO_FEE)\<rparr>"
  have s: "snd (createLink URL net sent r) = sent @ [POST ENDPOINT_CREATE_LINK ?body]"
    by (rule createLink_valid_sent [OF assms])
  have ne: "NO_FEE \<noteq> []" "SPLIT_FEE \<noteq> []" "CUSTOMER_FEE \<noteq> []"
    by (simp_all add: NO_FEE_def SPLIT_FEE_def CUSTOMER_FEE_def lit_def)
  have n: "feeMode r = None \<longrightarrow> feeMode ?body = Some NO_FEE \<and> ?body = r\<lparr>feeMode := Some NO_FEE\<rparr>"
    by (simp add: or_else_def)
  have f: "\<forall>f. feeMode r = Some f \<and> (f = NO_FEE \<or> f = SPLIT_FEE \<or> f = CUSTOMER_FEE)
                  \<longrightarrow> feeMode ?body = Some f \<and> ?body = r"
    using ne by (auto simp: or_else_def)
  have o: "productInfo ?body = productInfo r" "successMessage ?body = successMessage r"
    "redirectUrl ?body = redirectUrl r" "?body = r\<lparr>feeMode := feeMode ?body\<rparr>" by simp_all
  show ?thesis
  proof (intro exI [of _ ?body] conjI)
    show "snd (createLink URL net sent r) = sent @ [POST ENDPOINT_CREATE_LINK ?body]" by (rule s)
    show "feeMode r = None \<longrightarrow> feeMode ?body = Some NO_FEE \<and> ?body = r\<lparr>feeMode := Some NO_FEE\<rparr>"
      by (rule n)
    show "\<forall>f. feeMode r = Some f \<and> (f = NO_FEE \<or> f = SPLIT_FEE \<or> f = CUSTOMER_FEE)
                  \<longrightarrow> feeMode ?body = Some f \<and> ?body = r" by (rule f)
  qed (rule o)+
qed

theorem C8_createLink_frame_witness:
  "validateCreateLinkRequest URL_scheme_stage sample_request = Inr ()
   \<and> snd (createLink URL_scheme_stage (\<lambda>req. Rejected network_error) [] sample_request)
       = [POST ENDPOINT_CREATE_LINK (sample_request\<lparr>feeMode := Some NO_FEE\<rparr>)]"
proof -
  have h: "validateCreateLinkRequest URL_scheme_stage sample_request = Inr ()"
    by (rule sample_request_valid)
  have n: "feeMode sample_request = None" by (simp add: sample_request_def)
  from C8_createLink_frame [OF h, of "\<lambda>req. Rejected network_error" "[]"] n
  have "snd (createLink URL_scheme_stage (\<lambda>req. Rejected network_error) [] sample_request)
       = [POST ENDPOINT_CREATE_LINK (sample_request\<lparr>feeMode := Some NO_FEE\<rparr>)]"
    by auto
  with h show ?thesis by blast
qed

text \<open>
  Claim C10. A request whose fee mode is the empty string is validated exactly like the
  same request without fee mode, and \<open>createLink\<close> behaves the same on both: a local
  rejection with the same error, or one \<open>POST\<close> whose body has the fee mode \<open>NO_FEE\<close>.
  The fee-mode error is raised only for a fee mode that is present, not empty and none
  of \<open>NO_FEE\<close>, \<open>SPLIT_FEE\<close>, \<open>CUSTOMER_FEE\<close>, and, the rest of the request being valid, for
  every such fee mode.
\<close>

theorem C10_falsy_fee_mode:
  "validateCreateLinkRequest URL (r\<lparr>feeMode := Some []\<rparr>)
     = validateCreateLinkRequest URL (r\<lparr>feeMode := None\<rparr>)
   \<and> createLink URL net sent (r\<lparr>feeMode := Some []\<rparr>)
     = createLink URL net sent (r\<lparr>feeMode := None\<rparr>)
   \<and> (\<forall>e. validateCreateLinkRequest URL (r\<lparr>feeMode := None\<rparr>) = Inl e \<longrightarrow>
         createLink URL net sent (r\<lparr>feeMode := Some []\<rparr>) = (Inl (Local e), sent))
   \<and> (validateCreateLinkRequest URL (r\<lparr>feeMode := None\<rparr>) = Inr () \<longrightarrow>
         snd (createLink URL net sent (r\<lparr>feeMode := Some []\<rparr>))
           = sent @ [POST ENDPOINT_CREATE_LINK (r\<lparr>feeMode := Some NO_FEE\<rparr>)])
   \<and> (validateCreateLinkRequest URL r
         = Inl (Error (lit ''Invalid fee mode. Must be one of: NO_FEE, SPLIT_FEE, CUSTOMER_FEE''))
       \<longrightarrow> (\<exists>f. feeMode r = Some f \<and> f \<noteq> [] \<and> f \<noteq> NO_FEE \<and> f \<noteq> SPLIT_FEE
               \<and> f \<noteq> CUSTOMER_FEE))
   \<and> (\<forall>f. f \<noteq> [] \<and> f \<noteq> NO_FEE \<and> f \<noteq> SPLIT_FEE \<and> f \<noteq> CUSTOMER_FEE
         \<and> validateCreateLinkRequest URL (r\<lparr>feeMode := None\<rparr>) = Inr ()
       \<longrightarrow> validateCreateLinkRequest URL (r\<lparr>feeMode := Some f\<rparr>)
            = Inl (Error (lit ''Invalid fee mode. Must be one of: NO_FEE, SPLIT_FEE, CUSTOMER_FEE'')))"
proof -
  have v: "validateCreateLinkRequest URL (r\<lparr>feeMode := Some []\<rparr>)
     = validateCreateLinkRequest URL (r\<lparr>feeMode := None\<rparr>)"
    by (rule validateCreateLinkRequest_cong) (simp_all add: fee_mode_check_def)
  have c: "createLink URL net sent (r\<lparr>feeMode := Some []\<rparr>)
     = createLink URL net sent (r\<lparr>feeMode := None\<rparr>)"
    by (simp add: createLink_def v or_else_def Let_def split: sum.split)
  have i: "\<forall>e. validateCreateLinkRequest URL (r\<lparr>feeMode := None\<rparr>) = Inl e \<longrightarrow>
         createLink URL net sent (r\<lparr>feeMode := Some []\<rparr>) = (Inl (Local e), sent)"
    by (simp add: c createLink_invalid)
  have s: "validateCreateLinkRequest URL (r\<lparr>feeMode := None\<rparr>) = Inr () \<longrightarrow>
         snd (createLink URL net sent (r\<lparr>feeMode := Some []\<rparr>))
           = sent @ [POST ENDPOINT_CREATE_LINK (r\<lparr>feeMode := Some NO_FEE\<rparr>)]"
  proof
    assume "validateCreateLinkRequest URL (r\<lparr>feeMode := None\<rparr>) = Inr ()"
    from createLink_valid_sent [OF this, of net sent]
    show "snd (createLink URL net sent (r\<lparr>feeMode := Some []\<rparr>))
           = sent @ [POST ENDPOINT_CREATE_LINK (r\<lparr>feeMode := Some NO_FEE\<rparr>)]"
      by (simp add: c or_else_def)
  qed
  have m: "validateCreateLinkRequest URL r
         = Inl (Error (lit ''Invalid fee mode. Must be one of: NO_FEE, SPLIT_FEE, CUSTOMER_FEE''))
       \<longrightarrow> (\<exists>f. feeMode r = Some f \<and> f \<noteq> [] \<and> f \<noteq> NO_FEE \<and> f \<noteq> SPLIT_FEE
               \<and> f \<noteq> CUSTOMER_FEE)"
  proof (cases "productInfo r")
    case None
    then show ?thesis
      using fee_message_distinct(1) by (simp add: validateCreateLinkRequest_unfold)
  next
    case (Some p)
    show ?thesis
    proof (cases "validateProductInfo p")
      case (Inl e)
      with Some show ?thesis
        using validateProductInfo_not_fee [of p] by (simp add: validateCreateLinkRequest_unfold)
    next
      case (Inr u)
      show ?thesis
      proof (cases "fee_mode_check (feeMode r)")
        case (Inl e)
        then show ?thesis
          by (auto simp: fee_mode_check_eq split: option.splits if_splits)
      next
        case ok: (Inr u')
        with Some Inr show ?thesis
          using fee_message_distinct(2,3)
          by (simp add: validateCreateLinkRequest_unfold)
      qed
    qed
  qed
  have t: "\<forall>f. f \<noteq> [] \<and> f \<noteq> NO_FEE \<and> f \<noteq> SPLIT_FEE \<and> f \<noteq> CUSTOMER_FEE
         \<and> validateCreateLinkRequest URL (r\<lparr>feeMode := None\<rparr>) = Inr ()
       \<longrightarrow> validateCreateLinkRequest URL (r\<lparr>feeMode := Some f\<rparr>)
            = Inl (Error (lit ''Invalid fee mode. Must be one of: NO_FEE, SPLIT_FEE, CUSTOMER_FEE''))"
  proof (intro allI impI)
    fix f
    assume a: "f \<noteq> [] \<and> f \<noteq> NO_FEE \<and> f \<noteq> SPLIT_FEE \<and> f \<noteq> CUSTOMER_FEE
         \<and> validateCreateLinkRequest URL (r\<lparr>feeMode := None\<rparr>) = Inr ()"
    then obtain p where p: "productInfo r = Some p" "validateProductInfo p = Inr ()"
      by (auto simp: validateCreateLinkRequest_Inr)
    with a show "validateCreateLinkRequest URL (r\<lparr>feeMode := Some f\<rparr>)
            = Inl (Error (lit ''Invalid fee mode. Must be one of: NO_FEE, SPLIT_FEE, CUSTOMER_FEE''))"
      by (simp add: validateCreateLinkRequest_unfold fee_mode_check_eq)
  qed
  from v c i s m t show ?thesis by blast
qed

theorem C10_falsy_fee_mode_witness:
  "validateCreateLinkRequest URL_scheme_stage (sample_request\<lparr>feeMode := Some []\<rparr>) = Inr ()
   \<and> snd (createLink URL_scheme_stage (\<lambda>req. Rejected network_error) []
           (sample_request\<lparr>feeMode := Some []\<rparr>))
       = [POST ENDPOINT_CREATE_LINK (sample_request\<lparr>feeMode := Some NO_FEE\<rparr>)]
   \<and> validateCreateLinkRequest URL_scheme_stage (sample_request\<lparr>feeMode := Some (lit ''FREE'')\<rparr>)
       = Inl (Error (lit ''Invalid fee mode. Must be one of: NO_FEE, SPLIT_FEE, CUSTOMER_FEE''))"
proof -
  note r = C10_falsy_fee_mode [of URL_scheme_stage sample_request
      "\<lambda>req. Rejected network_error" "[]"]
  have h: "validateCreateLinkRequest URL_scheme_stage (sample_request\<lparr>feeMode := None\<rparr>) = Inr ()"
    using sample_request_valid [of URL_scheme_stage] by (simp add: sample_request_def)
  from r [THEN conjunct1] h
  have a: "validateCreateLinkRequest URL_scheme_stage (sample_request\<lparr>feeMode := Some []\<rparr>)
      = Inr ()" by simp
  from r [THEN conjunct2, THEN conjunct2, THEN conjunct2, THEN conjunct1, rule_format, OF h]
  have b: "snd (createLink URL_scheme_stage (\<lambda>req. Rejected network_error) []
           (sample_request\<lparr>feeMode := Some []\<rparr>))
       = [POST ENDPOINT_CREATE_LINK (sample_request\<lparr>feeMode := Some NO_FEE\<rparr>)]" by simp
  have f: "lit ''FREE'' \<noteq> [] \<and> lit ''FREE'' \<noteq> NO_FEE \<and> lit ''FREE'' \<noteq> SPLIT_FEE
      \<and> lit ''FREE'' \<noteq> CUSTOMER_FEE"
    by (simp add: lit_def NO_FEE_def SPLIT_FEE_def CUSTOMER_FEE_def)
  from r [THEN conjunct2, THEN conjunct2, THEN conjunct2, THEN conjunct2, THEN conjunct2,
      rule_format, of "lit ''FREE''"] f h
  have c: "validateCreateLinkRequest URL_scheme_stage
        (sample_request\<lparr>feeMode := Some (lit ''FREE'')\<rparr>)
       = Inl (Error (lit ''Invalid fee mode. Must be one of: NO_FEE, SPLIT_FEE, CUSTOMER_FEE''))"
    by blast
  from a b c show ?thesis by blast
qed

end
